theory Spec2Isabelle
  imports Complex_Main "HOL-Library.Char_ord" "HOL-Library.List_Lexorder" "HOL-Library.Product_Lexorder"
begin

section \<open>Float cells\<close>

text \<open>
  A numeric cell of a pandas table is a float64. The model keeps its four kinds of value
  apart: a finite number, the two infinities and NaN (the null of a float column).
  The operations of this section give the exact result on finite numbers (no overflow, no
  signed zero); where a result depends on the rounding of float64, the rounding is applied
  on top of them, operation by operation (\<open>rounded\<close> below). What is kept of IEEE here is
  what the pipeline depends on: NaN propagates, \<open>x / 0\<close> is an infinity or NaN and never
  raises, NaN equals nothing.
\<close>

datatype fl = Fin real | PInf | NInf | NaN

fun fneg :: "fl \<Rightarrow> fl" where
  "fneg (Fin a) = Fin (- a)"
| "fneg PInf = NInf"
| "fneg NInf = PInf"
| "fneg NaN = NaN"

fun fadd :: "fl \<Rightarrow> fl \<Rightarrow> fl" where
  "fadd NaN _ = NaN"
| "fadd _ NaN = NaN"
| "fadd (Fin a) (Fin b) = Fin (a + b)"
| "fadd PInf NInf = NaN"
| "fadd NInf PInf = NaN"
| "fadd PInf _ = PInf"
| "fadd NInf _ = NInf"
| "fadd (Fin a) PInf = PInf"
| "fadd (Fin a) NInf = NInf"

definition fsub :: "fl \<Rightarrow> fl \<Rightarrow> fl" where
  "fsub x y = fadd x (fneg y)"

text \<open>The sign of a cell: 1, 0 or -1; NaN has none.\<close>

fun fsign :: "fl \<Rightarrow> int option" where
  "fsign (Fin a) = Some (if a < 0 then - 1 else if a = 0 then 0 else 1)"
| "fsign PInf = Some 1"
| "fsign NInf = Some (- 1)"
| "fsign NaN = None"

definition inf_of_sign :: "int \<Rightarrow> fl" where
  "inf_of_sign s = (if s < 0 then NInf else if s = 0 then NaN else PInf)"

fun fmul :: "fl \<Rightarrow> fl \<Rightarrow> fl" where
  "fmul (Fin a) (Fin b) = Fin (a * b)"
| "fmul x y =
     (case (fsign x, fsign y) of
        (Some s, Some t) \<Rightarrow> inf_of_sign (s * t)
      | _ \<Rightarrow> NaN)"

fun fdiv :: "fl \<Rightarrow> fl \<Rightarrow> fl" where
  "fdiv (Fin a) (Fin b) =
     (if b = 0 then (if a = 0 then NaN else if a < 0 then NInf else PInf) else Fin (a / b))"
| "fdiv (Fin a) PInf = Fin 0"
| "fdiv (Fin a) NInf = Fin 0"
| "fdiv PInf (Fin b) = (if b < 0 then NInf else PInf)"
| "fdiv NInf (Fin b) = (if b < 0 then PInf else NInf)"
| "fdiv _ _ = NaN"

fun fabs :: "fl \<Rightarrow> fl" where
  "fabs (Fin a) = Fin \<bar>a\<bar>"
| "fabs PInf = PInf"
| "fabs NInf = PInf"
| "fabs NaN = NaN"

text \<open>Python's \<open>==\<close> and \<open><=\<close> on floats: every comparison with NaN is false.\<close>

fun feq :: "fl \<Rightarrow> fl \<Rightarrow> bool" where
  "feq NaN _ = False"
| "feq _ NaN = False"
| "feq x y = (x = y)"

fun fle :: "fl \<Rightarrow> fl \<Rightarrow> bool" where
  "fle NaN _ = False"
| "fle _ NaN = False"
| "fle NInf _ = True"
| "fle _ PInf = True"
| "fle (Fin a) (Fin b) = (a \<le> b)"
| "fle _ _ = False"

definition isna :: "fl \<Rightarrow> bool" where
  "isna x = (x = NaN)"

text \<open>The finite observations of a slice, in order.\<close>

fun finite_obs :: "fl list \<Rightarrow> real list" where
  "finite_obs [] = []"
| "finite_obs (Fin a # xs) = a # finite_obs xs"
| "finite_obs (_ # xs) = finite_obs xs"

section \<open>Series operations of pandas\<close>

text \<open>
  \<open>Series.shift(p)\<close>: row \<open>t\<close> of the result holds row \<open>t - p\<close> of the input, NaN where that
  row does not exist. \<open>shift(-h)\<close> brings the value \<open>h\<close> rows ahead to row \<open>t\<close>.
\<close>

definition shift :: "int \<Rightarrow> fl list \<Rightarrow> fl list" where
  "shift p xs =
     map (\<lambda>t. let j = int t - p in
                if 0 \<le> j \<and> j < int (length xs) then xs ! nat j else NaN)
       [0..<length xs]"

text \<open>
  The percent changes are followed operation by operation, with the rounding of float64
  made explicit: the cell that stores the result of one operation holds the exact result
  rounded. The rounding \<open>rnd\<close> is a parameter; it takes the exact finite result to the cell
  (a finite number, or an infinity on overflow), and leaves infinities and NaN as they
  are. With \<open>rnd = Fin\<close> no operation rounds.
\<close>

definition rounded :: "(real \<Rightarrow> fl) \<Rightarrow> fl \<Rightarrow> fl" where
  "rounded rnd x = (case x of Fin r \<Rightarrow> rnd r | _ \<Rightarrow> x)"

text \<open>
  \<open>Series.pct_change(periods=h, fill_method=None)\<close> is \<open>data / data.shift(h) - 1\<close>,
  elementwise: a division, then a subtraction.
\<close>

definition pct_change :: "(real \<Rightarrow> fl) \<Rightarrow> nat \<Rightarrow> fl list \<Rightarrow> fl list" where
  "pct_change rnd h xs =
     map (\<lambda>(x, y). rounded rnd (fsub (rounded rnd (fdiv x y)) (Fin 1))) (zip xs (shift (int h) xs))"

text \<open>
  Line 106 of \<open>a1_load_crypto_prices.py\<close>:
  \<open>df['price'].shift(-hours).pct_change(periods=hours, fill_method=None) * 100\<close>.
\<close>

definition future_change :: "(real \<Rightarrow> fl) \<Rightarrow> nat \<Rightarrow> fl list \<Rightarrow> fl list" where
  "future_change rnd h price =
     map (\<lambda>x. rounded rnd (fmul x (Fin 100))) (pct_change rnd h (shift (- int h) price))"


section \<open>Rolling windows\<close>

text \<open>
  \<open>Series.rolling(window=w, min_periods=minp, center=c)\<close> with an integer window. The
  window of row \<open>i\<close> is the slice \<open>[i + 1 + offset - w, i + 1 + offset)\<close> with
  \<open>offset = (w - 1) // 2\<close> when centered and 0 otherwise, clipped to the series. The
  infinities are turned into NaN before the window functions run, and a window with
  fewer than \<open>minp\<close> observations that are not NaN yields NaN.
\<close>

definition window_bounds :: "nat \<Rightarrow> nat \<Rightarrow> bool \<Rightarrow> nat \<Rightarrow> nat \<times> nat" where
  "window_bounds n w center i =
     (let offset = (if center then (w - 1) div 2 else 0);
          e = i + 1 + offset;
          s = e - w
      in (min s n, min e n))"

definition window_obs :: "nat \<Rightarrow> bool \<Rightarrow> fl list \<Rightarrow> nat \<Rightarrow> real list" where
  "window_obs w center xs i =
     (case window_bounds (length xs) w center i of
        (s, e) \<Rightarrow> finite_obs (take (e - s) (drop s xs)))"

definition rolling :: "(real list \<Rightarrow> fl) \<Rightarrow> nat \<Rightarrow> nat \<Rightarrow> bool \<Rightarrow> fl list \<Rightarrow> fl list" where
  "rolling agg w minp center xs =
     map (\<lambda>i. let obs = window_obs w center xs i in
                if minp \<le> length obs then agg obs else NaN)
       [0..<length xs]"

definition agg_sum :: "real list \<Rightarrow> fl" where
  "agg_sum obs = Fin (sum_list obs)"

definition agg_mean :: "real list \<Rightarrow> fl" where
  "agg_mean obs = (if obs = [] then NaN else Fin (sum_list obs / real (length obs)))"

fun agg_max :: "real list \<Rightarrow> fl" where
  "agg_max [] = NaN"
| "agg_max (x # xs) = Fin (fold max xs x)"

fun agg_min :: "real list \<Rightarrow> fl" where
  "agg_min [] = NaN"
| "agg_min (x # xs) = Fin (fold min xs x)"

text \<open>The sample standard deviation (\<open>ddof = 1\<close>): NaN on fewer than two observations.\<close>

definition agg_std :: "real list \<Rightarrow> fl" where
  "agg_std obs =
     (let n = length obs in
      if n \<le> 1 then NaN
      else let m = sum_list obs / real n in
           Fin (sqrt (sum_list (map (\<lambda>x. (x - m)\<^sup>2) obs) / real (n - 1))))"

text \<open>\<open>Series.ffill()\<close>, the padding that \<open>pct_change\<close> applies by default.\<close>

fun ffill_from :: "fl \<Rightarrow> fl list \<Rightarrow> fl list" where
  "ffill_from prev [] = []"
| "ffill_from prev (x # xs) =
     (if x = NaN then prev # ffill_from prev xs else x # ffill_from x xs)"

text \<open>A row-wise mean that skips NaN (\<open>x.mean()\<close> on the cells of a row).\<close>

definition fl_mean :: "fl list \<Rightarrow> fl" where
  "fl_mean xs =
     (let ys = filter (\<lambda>x. x \<noteq> NaN) xs in
      if ys = [] then NaN else fdiv (fold (\<lambda>y acc. fadd acc y) ys (Fin 0)) (Fin (real (length ys))))"

section \<open>Price loader (\<open>a1_load_crypto_prices.py\<close>)\<close>

datatype py_error = KeyError | ValueError | AttributeError

text \<open>
  A fetched candle \<open>[timestamp, open, high, low, close, volume]\<close>: the timestamp in
  milliseconds since the epoch, the five numbers finite.
\<close>

record candle =
  c_timestamp :: int
  c_open :: real
  c_high :: real
  c_low :: real
  c_close :: real
  c_volume :: real

text \<open>
  The columns \<open>agg_level\<close> may name. \<open>coin\<close> is the constant \<open>coin_name\<close> of the call, so it
  contributes the same key to every row; \<open>weekday\<close> counts from Monday = 0 (the epoch was a
  Thursday); \<open>day\<close> is the date, as days since the epoch.
\<close>

datatype keycol = Coin | Timestamp | Weekday | Day | Hour

fun key_value :: "keycol \<Rightarrow> candle \<Rightarrow> int" where
  "key_value Coin c = 0"
| "key_value Timestamp c = c_timestamp c"
| "key_value Weekday c = (c_timestamp c div 86400000 + 3) mod 7"
| "key_value Day c = c_timestamp c div 86400000"
| "key_value Hour c = (c_timestamp c div 3600000) mod 24"

definition group_key :: "keycol list \<Rightarrow> candle \<Rightarrow> int list" where
  "group_key agg_level c = map (\<lambda>k. key_value k c) agg_level"

text \<open>One aggregated row: the key columns of \<open>agg_level\<close>, then the summed columns.\<close>

record bar =
  b_coin :: string
  b_key :: "int list"
  b_open :: fl
  b_high :: fl
  b_low :: fl
  b_close :: fl
  b_volume :: fl
  b_price :: fl
  b_volume_usd :: fl

text \<open>
  \<open>basic_prep_ohlcv_df\<close>: the price columns are multiplied by the volume, summed per group
  (\<open>groupby(agg_level, as_index=False).sum()\<close>: one row per key, in key order), and divided
  by the summed volume; \<open>price\<close> is the row mean of open and close, \<open>volume_usd\<close> is
  \<open>volume * price\<close>. Grouping by no column raises.
\<close>

definition weighted_sum :: "(candle \<Rightarrow> real) \<Rightarrow> candle list \<Rightarrow> real" where
  "weighted_sum cc g = sum_list (map (\<lambda>c. cc c * c_volume c) g)"

definition make_bar :: "string \<Rightarrow> keycol list \<Rightarrow> candle list \<Rightarrow> int list \<Rightarrow> bar" where
  "make_bar coin_name agg_level fetched k =
     (let g = filter (\<lambda>c. group_key agg_level c = k) fetched;
          volume = Fin (sum_list (map c_volume g));
          op = fdiv (Fin (weighted_sum c_open g)) volume;
          hi = fdiv (Fin (weighted_sum c_high g)) volume;
          lo = fdiv (Fin (weighted_sum c_low g)) volume;
          cl = fdiv (Fin (weighted_sum c_close g)) volume;
          price = fl_mean [op, cl]
      in \<lparr>b_coin = coin_name, b_key = k, b_open = op, b_high = hi, b_low = lo, b_close = cl,
          b_volume = volume, b_price = price, b_volume_usd = fmul volume price\<rparr>)"

definition basic_prep_ohlcv_df :: "candle list \<Rightarrow> string \<Rightarrow> keycol list \<Rightarrow> py_error + bar list" where
  "basic_prep_ohlcv_df fetched_ohlcv coin_name agg_level =
     (if agg_level = [] then Inl ValueError
      else Inr (map (make_bar coin_name agg_level fetched_ohlcv)
                  (sort (remdups (map (group_key agg_level) fetched_ohlcv)))))"

text \<open>The derived columns of \<open>prep_ohlcv_df\<close>, named by kind and window.\<close>

datatype colname =
    Change nat
  | FutureChange nat
  | AvgVolume nat
  | VolatilityVolume nat
  | AvgVolumeLevel nat nat

record prep_df =
  p_bars :: "bar list"
  p_features :: "(colname \<times> fl list) list"

definition change :: "(real \<Rightarrow> fl) \<Rightarrow> nat \<Rightarrow> fl list \<Rightarrow> fl list" where
  "change rnd h price =
     map (\<lambda>x. rounded rnd (fmul x (Fin 100))) (pct_change rnd h (ffill_from NaN price))"

definition avg_volume :: "nat \<Rightarrow> fl list \<Rightarrow> fl list" where
  "avg_volume h volume = rolling agg_mean h h False volume"

definition volatility_volume :: "nat \<Rightarrow> fl list \<Rightarrow> fl list" where
  "volatility_volume h volume =
     map (\<lambda>(s, m). fdiv s m) (zip (rolling agg_std h h False volume) (avg_volume h volume))"

definition avg_volume_level :: "nat \<Rightarrow> nat \<Rightarrow> fl list \<Rightarrow> fl list" where
  "avg_volume_level a b volume =
     map (\<lambda>(x, y). fdiv x y) (zip (avg_volume a volume) (avg_volume b volume))"

definition volume_windows :: "nat list" where
  "volume_windows = [6, 12, 24, 48, 72, 168, 336]"

text \<open>
  \<open>prep_ohlcv_df\<close>. The final column selection names \<open>coin\<close>, \<open>timestamp\<close>, \<open>weekday\<close>, \<open>day\<close>
  and \<open>hour\<close>, which the aggregated table has only when \<open>agg_level\<close> names them.
\<close>

definition prep_ohlcv_df ::
  "(real \<Rightarrow> fl) \<Rightarrow> candle list \<Rightarrow> string \<Rightarrow> keycol list \<Rightarrow> py_error + prep_df" where
  "prep_ohlcv_df rnd fetched_ohlcv coin_name agg_level =
     (case basic_prep_ohlcv_df fetched_ohlcv coin_name agg_level of
        Inl e \<Rightarrow> Inl e
      | Inr df \<Rightarrow>
          let price = map b_price df; volume = map b_volume df in
          if \<not> set [Coin, Timestamp, Weekday, Day, Hour] \<subseteq> set agg_level then Inl KeyError
          else Inr \<lparr>p_bars = df,
                 p_features =
                   map (\<lambda>h. (AvgVolumeLevel h 336, avg_volume_level h 336 volume)) [6, 12, 24] @
                   map (\<lambda>h. (AvgVolume h, avg_volume h volume)) volume_windows @
                   map (\<lambda>h. (VolatilityVolume h, volatility_volume h volume)) volume_windows @
                   map (\<lambda>h. (Change h, change rnd h price)) [1, 3, 6, 12, 18, 24, 48, 72, 168] @
                   map (\<lambda>h. (FutureChange h, future_change rnd h price)) [3, 6, 12, 24, 48, 72, 168]\<rparr>)"



text \<open>The \<open>volume\<close> column of the aggregated table, as numbers.\<close>

definition bar_volumes :: "keycol list \<Rightarrow> candle list \<Rightarrow> real list" where
  "bar_volumes agg_level fetched =
     map (\<lambda>k. sum_list (map c_volume (filter (\<lambda>c. group_key agg_level c = k) fetched)))
       (sort (remdups (map (group_key agg_level) fetched)))"

text \<open>Consecutive hourly candles from the epoch on, at a constant price, with given volumes.\<close>

definition ex_hourly :: "real list \<Rightarrow> candle list" where
  "ex_hourly vs =
     map (\<lambda>(n, v). \<lparr>c_timestamp = 3600000 * int n, c_open = 100, c_high = 100, c_low = 100,
                     c_close = 100, c_volume = v\<rparr>)
       (zip [0..<length vs] vs)"

definition ex_agg_level :: "keycol list" where
  "ex_agg_level = [Coin, Timestamp, Weekday, Day, Hour]"

section \<open>Feature tables (\<open>a3_data_engineering.py\<close>)\<close>

text \<open>
  A row of a feature table has its key columns (\<open>coin\<close>, \<open>timestamp\<close>, \<open>day\<close>) and its float
  columns, by name. A table lists the names of its float columns, in order, and its rows.
  The parameters \<open>col_group\<close> and \<open>col_sort\<close> of the functions name key columns: they are
  passed as the selector of the column (\<open>coin\<close> and \<open>timestamp\<close> by default).
\<close>

record rkey =
  coin :: string
  timestamp :: int
  day :: int

record row =
  key :: rkey
  vals :: "string \<rightharpoonup> fl"

record table =
  cols :: "string list"
  rows :: "row list"

definition cell :: "string \<Rightarrow> row \<Rightarrow> fl" where
  "cell name r = (case vals r name of Some v \<Rightarrow> v | None \<Rightarrow> NaN)"

definition col :: "string \<Rightarrow> table \<Rightarrow> fl list" where
  "col name df = map (cell name) (rows df)"

text \<open>\<open>df[name] = vs\<close>: a new column goes last, an existing one is overwritten in place.\<close>

definition set_col :: "string \<Rightarrow> fl list \<Rightarrow> table \<Rightarrow> table" where
  "set_col name vs df =
     \<lparr>cols = (if name \<in> set (cols df) then cols df else cols df @ [name]),
      rows = map (\<lambda>(r, v). r\<lparr>vals := (vals r)(name \<mapsto> v)\<rparr>) (zip (rows df) vs)\<rparr>"

definition drop_cols :: "string list \<Rightarrow> table \<Rightarrow> table" where
  "drop_cols names df =
     \<lparr>cols = filter (\<lambda>c. c \<notin> set names) (cols df),
      rows = map (\<lambda>r. r\<lparr>vals := (\<lambda>c. if c \<in> set names then None else vals r c)\<rparr>) (rows df)\<rparr>"

text \<open>
  \<open>df.sort_values(by=col_sort, inplace=True)\<close>. pandas leaves the order of rows with equal
  keys open; the model keeps them in their order. Within a coin with distinct timestamps the
  order is the same either way.
\<close>

definition sort_values :: "(rkey \<Rightarrow> 'k::linorder) \<Rightarrow> table \<Rightarrow> table" where
  "sort_values col_sort df = df\<lparr>rows := sort_key (\<lambda>r. col_sort (key r)) (rows df)\<rparr>"

definition groups :: "(rkey \<Rightarrow> 'g) \<Rightarrow> table \<Rightarrow> 'g list" where
  "groups col_group df = map (\<lambda>r. col_group (key r)) (rows df)"

text \<open>
  \<open>df.groupby(col_group)[name].transform(f)\<close>: \<open>f\<close> runs on the series of each group, and
  every row receives the entry of its group's result at its position within the group.
\<close>

definition group_transform :: "(fl list \<Rightarrow> fl list) \<Rightarrow> 'g list \<Rightarrow> fl list \<Rightarrow> fl list" where
  "group_transform f gs xs =
     map (\<lambda>i. f (map (\<lambda>j. xs ! j) (filter (\<lambda>j. gs ! j = gs ! i) [0..<length gs])) !
               length (filter (\<lambda>j. gs ! j = gs ! i) [0..<i]))
       [0..<length gs]"

definition transform_col :: "(fl list \<Rightarrow> fl list) \<Rightarrow> (rkey \<Rightarrow> 'g) \<Rightarrow> string \<Rightarrow> table \<Rightarrow> fl list" where
  "transform_col f col_group name df = group_transform f (groups col_group df) (col name df)"

text \<open>\<open>str(n)\<close> for a window length.\<close>

fun str_nat :: "nat \<Rightarrow> string" where
  "str_nat n =
     (if n < 10 then [''0123456789'' ! n] else str_nat (n div 10) @ [''0123456789'' ! (n mod 10)])"

declare str_nat.simps [simp del]

subsection \<open>\<open>weighted_average\<close>\<close>

definition scratch_cols :: "string list" where
  "scratch_cols = [''weighted_price'', ''nominator'', ''denominator'']"

definition weighted_average ::
  "table \<Rightarrow> string \<Rightarrow> string \<Rightarrow> nat \<Rightarrow> (rkey \<Rightarrow> 'g) \<Rightarrow> (rkey \<Rightarrow> 'k::linorder) \<Rightarrow> py_error + table" where
  "weighted_average df col_price colname_new window_length col_group col_sort =
     (if col_price \<notin> set (cols df) \<or> ''volume'' \<notin> set (cols df) then Inl KeyError
      else
        let df1 = set_col ''weighted_price''
                    (map (\<lambda>r. fmul (cell col_price r) (cell ''volume'' r)) (rows df)) df;
            colname_new = colname_new @ str_nat window_length;
            df2 = sort_values col_sort df1
        in
        if window_length < 1 then Inl ValueError
        else
          let df3 = set_col ''nominator''
                      (transform_col (rolling agg_sum window_length 1 False) col_group
                         ''weighted_price'' df2) df2;
              df4 = set_col ''denominator''
                      (transform_col (rolling agg_sum window_length 1 False) col_group
                         ''volume'' df3) df3;
              df5 = set_col colname_new
                      (map (\<lambda>r. fdiv (cell ''nominator'' r) (cell ''denominator'' r)) (rows df4)) df4
          in Inr (drop_cols scratch_cols df5))"

subsection \<open>Local extrema\<close>

text \<open>\<open>1 * (x[0] == x[1])\<close>.\<close>

definition flag_equal :: "fl \<Rightarrow> fl \<Rightarrow> fl" where
  "flag_equal x y = Fin (if feq x y then 1 else 0)"

definition define_local_min_max ::
  "table \<Rightarrow> string \<Rightarrow> (rkey \<Rightarrow> 'g) \<Rightarrow> nat \<Rightarrow> string \<Rightarrow> (rkey \<Rightarrow> 'k::linorder) \<Rightarrow> py_error + table" where
  "define_local_min_max df col_price col_group period_window_min_max suffix col_sort =
     (let col_max = ''local_max'' @ suffix;
          col_min = ''local_min'' @ suffix;
          w = period_window_min_max;
          df1 = sort_values col_sort df
      in
      if col_price \<notin> set (cols df1) then Inl KeyError
      else
        let df2 = set_col col_max (transform_col (rolling agg_max w w True) col_group col_price df1) df1;
            df3 = set_col col_max
                    (map (\<lambda>r. flag_equal (cell col_price r) (cell col_max r)) (rows df2)) df2
        in
        if ''avg_price_5'' \<notin> set (cols df3) then Inl KeyError
        else
          let df4 = set_col col_min
                      (transform_col (rolling agg_min w w True) col_group ''avg_price_5'' df3) df3;
              df5 = set_col col_min
                      (map (\<lambda>r. flag_equal (cell col_price r) (cell col_min r)) (rows df4)) df4
          in Inr df5)"

definition define_local_min_max2 ::
  "table \<Rightarrow> string \<Rightarrow> string \<Rightarrow> (rkey \<Rightarrow> 'g) \<Rightarrow> nat \<Rightarrow> string \<Rightarrow> (rkey \<Rightarrow> 'k::linorder) \<Rightarrow>
   py_error + table" where
  "define_local_min_max2 df col_price_min col_price_max col_group period_window_min_max suffix col_sort =
     (let col_max = ''local_max'' @ suffix;
          col_min = ''local_min'' @ suffix;
          w = period_window_min_max;
          df1 = sort_values col_sort df
      in
      if col_price_max \<notin> set (cols df1) then Inl KeyError
      else
        let df2 = set_col col_max
                    (transform_col (rolling agg_max w w True) col_group col_price_max df1) df1;
            df3 = set_col col_max
                    (map (\<lambda>r. flag_equal (cell col_price_max r) (cell col_max r)) (rows df2)) df2
        in
        if col_price_min \<notin> set (cols df3) then Inl KeyError
        else
          let df4 = set_col col_min
                      (transform_col (rolling agg_min w w True) col_group col_price_min df3) df3;
              df5 = set_col col_min
                      (map (\<lambda>r. flag_equal (cell col_price_min r) (cell col_min r)) (rows df4)) df4
          in Inr df5)"

text \<open>The rows of one group of a table, in table order, and a column of theirs.\<close>

definition group_rows :: "(rkey \<Rightarrow> 'g) \<Rightarrow> 'g \<Rightarrow> table \<Rightarrow> row list" where
  "group_rows col_group g df = filter (\<lambda>r. col_group (key r) = g) (rows df)"

text \<open>A small table with two coins, for examples.\<close>

definition mk_row :: "string \<Rightarrow> int \<Rightarrow> (string \<times> fl) list \<Rightarrow> row" where
  "mk_row c t kv = \<lparr>key = \<lparr>coin = c, timestamp = t, day = t div 24\<rparr>, vals = map_of kv\<rparr>"

definition ex_extrema :: table where
  "ex_extrema =
     \<lparr>cols = [''high'', ''low''],
      rows = [mk_row ''BTC'' 0 [(''high'', Fin 1), (''low'', Fin 1)],
              mk_row ''BTC'' 1 [(''high'', Fin 3), (''low'', Fin 0)],
              mk_row ''ETH'' 0 [(''high'', Fin 5), (''low'', Fin 5)],
              mk_row ''BTC'' 2 [(''high'', Fin 2), (''low'', Fin 2)]]\<rparr>"

text \<open>
  One coin, three periods: the raw price dips in the middle, its smoothed average does not.
\<close>

definition ex_prices :: table where
  "ex_prices =
     \<lparr>cols = [''price'', ''avg_price_5''],
      rows = [mk_row ''BTC'' 0 [(''price'', Fin 2), (''avg_price_5'', Fin 2)],
              mk_row ''BTC'' 1 [(''price'', Fin 1), (''avg_price_5'', Fin 2)],
              mk_row ''BTC'' 2 [(''price'', Fin 3), (''avg_price_5'', Fin 3)]]\<rparr>"

text \<open>A table whose price column has the name of a scratch column.\<close>

definition ex_clash :: table where
  "ex_clash =
     \<lparr>cols = [''weighted_price'', ''volume''],
      rows = [mk_row ''BTC'' 0 [(''weighted_price'', Fin 7), (''volume'', Fin 2)]]\<rparr>"

definition ex_trades :: table where
  "ex_trades =
     \<lparr>cols = [''price'', ''volume''],
      rows = [mk_row ''BTC'' 1 [(''price'', Fin 12), (''volume'', Fin 3)],
              mk_row ''BTC'' 0 [(''price'', Fin 10), (''volume'', Fin 1)]]\<rparr>"

subsection \<open>\<open>calculate_momentum\<close>\<close>







subsection \<open>\<open>aggregate_support_levels\<close>\<close>

text \<open>\<open>Series.unique()\<close>: the distinct values in order of first appearance.\<close>

definition unique :: "'a list \<Rightarrow> 'a list" where
  "unique xs = rev (remdups (rev xs))"

text \<open>The order of \<open>sort_values\<close> on a float column: ascending, NaN last.\<close>

definition na_last :: "fl \<Rightarrow> nat \<times> real" where
  "na_last x = (case x of NInf \<Rightarrow> (0, 0) | Fin a \<Rightarrow> (1, a) | PInf \<Rightarrow> (2, 0) | NaN \<Rightarrow> (3, 0))"

text \<open>
  Lines 64 to 70: every row starts as its own cluster \<open>1..N\<close>; one pass over the adjacent
  pairs of the price-sorted rows copies the cluster of row \<open>i\<close> to row \<open>i + 1\<close> when their
  relative gap is at most \<open>thres\<close>.
\<close>

definition cluster_ids :: "real \<Rightarrow> fl list \<Rightarrow> nat list" where
  "cluster_ids thres p =
     fold (\<lambda>i ids. if fle (fdiv (fabs (fsub (p ! i) (p ! (i + 1)))) (p ! i)) (Fin thres)
                    then ids[i + 1 := ids ! i] else ids)
       [0..<length p - 1] [1..<length p + 1]"

text \<open>\<open>x.median()\<close> and \<open>x.count()\<close> of a group of cells: NaN cells are left out.\<close>

definition fl_median :: "fl list \<Rightarrow> fl" where
  "fl_median xs =
     (let ys = sort_key na_last (filter (\<lambda>x. x \<noteq> NaN) xs); n = length ys in
      if n = 0 then NaN
      else if odd n then ys ! (n div 2)
      else fdiv (fadd (ys ! (n div 2 - 1)) (ys ! (n div 2))) (Fin 2))"

definition fl_count :: "fl list \<Rightarrow> fl" where
  "fl_count xs = Fin (real (length (filter (\<lambda>x. x \<noteq> NaN) xs)))"

text \<open>A row of \<open>df_cluster\<close>.\<close>

record 'g level_row =
  lv_day :: int
  lv_group :: 'g
  lv_level :: nat
  lv_price :: fl
  lv_counter :: fl

text \<open>The body of the loop over the coins, for the flagged rows of one coin.\<close>

definition cluster_group :: "real \<Rightarrow> string \<Rightarrow> (rkey \<Rightarrow> 'g) \<Rightarrow> row list \<Rightarrow> 'g level_row list" where
  "cluster_group thres col_price col_group rs =
     (let df_g = sort_key (\<lambda>r. na_last (cell col_price r)) rs;
          p = map (cell col_price) df_g;
          ids = cluster_ids thres p;
          members = (\<lambda>l. map snd (filter (\<lambda>(l', x). l' = l) (zip ids p)))
      in map (\<lambda>(r, l). \<lparr>lv_day = day (key r), lv_group = col_group (key r), lv_level = l,
                         lv_price = fl_median (members l), lv_counter = fl_count (members l)\<rparr>)
           (zip df_g ids))"

text \<open>
  \<open>df.merge(df_cluster, on=['day', col_group], how='left')\<close>: every row of \<open>df\<close>, in order,
  once per matching row of \<open>df_cluster\<close>, and once with null level columns when nothing
  matches. The model is for tables that do not have the three level columns yet.
\<close>

definition merge_levels ::
  "string \<Rightarrow> string \<Rightarrow> string \<Rightarrow> (rkey \<Rightarrow> 'g) \<Rightarrow> table \<Rightarrow> 'g level_row list \<Rightarrow> table" where
  "merge_levels c1 c2 c3 col_group df df_cluster =
     \<lparr>cols = cols df @ [c1, c2, c3],
      rows = concat (map (\<lambda>r.
        let ms = filter (\<lambda>c. lv_day c = day (key r) \<and> lv_group c = col_group (key r)) df_cluster in
        if ms = [] then [r\<lparr>vals := (vals r)(c1 \<mapsto> NaN, c2 \<mapsto> NaN, c3 \<mapsto> NaN)\<rparr>]
        else map (\<lambda>c. r\<lparr>vals := (vals r)(c1 \<mapsto> Fin (real (lv_level c)), c2 \<mapsto> lv_price c,
                                           c3 \<mapsto> lv_counter c)\<rparr>) ms)
        (rows df))\<rparr>"

text \<open>
  \<open>aggregate_support_levels\<close>. When no row is flagged the loop does not run, \<open>df_cluster\<close>
  stays the empty frame without columns, and the merge on \<open>day\<close> raises.
\<close>

definition aggregate_support_levels ::
  "table \<Rightarrow> string \<Rightarrow> string \<Rightarrow> string \<Rightarrow> (rkey \<Rightarrow> 'g) \<Rightarrow> real \<Rightarrow> string \<Rightarrow> py_error + table" where
  "aggregate_support_levels df col_min col_max col_price col_group thres suffix =
     (let col_cluster = ''level'' @ suffix;
          col_cluster_price = ''price_level'' @ suffix;
          col_cluster_counter = ''counter_level'' @ suffix
      in
      if \<not> set [col_min, col_max, col_price] \<subseteq> set (cols df) then Inl KeyError
      else
        let df_locals = filter (\<lambda>r. feq (cell col_min r) (Fin 1) \<or> feq (cell col_max r) (Fin 1))
                          (rows df);
            df_cluster = concat (map (\<lambda>g. cluster_group thres col_price col_group
                                            (filter (\<lambda>r. col_group (key r) = g) df_locals))
                                   (unique (map (\<lambda>r. col_group (key r)) df_locals)))
        in
        if df_locals = [] then Inl KeyError
        else Inr (merge_levels col_cluster col_cluster_price col_cluster_counter col_group df
                    df_cluster))"

text \<open>Daily rows of one coin, each a flagged extremum, with given prices.\<close>

definition ex_extrema_rows :: "real list \<Rightarrow> table" where
  "ex_extrema_rows ps =
     \<lparr>cols = [''price'', ''local_min'', ''local_max''],
      rows = map (\<lambda>(n, p). \<lparr>key = \<lparr>coin = ''BTC'', timestamp = 24 * int n, day = int n\<rparr>,
                             vals = [''price'' \<mapsto> Fin p, ''local_min'' \<mapsto> Fin 1,
                                     ''local_max'' \<mapsto> Fin 0]\<rparr>)
               (zip [0..<length ps] ps)\<rparr>"

text \<open>
  Hourly rows: two flagged extrema on day 0, an unflagged row on day 1; and the same table
  with no flag set.
\<close>

definition ex_hours :: "fl \<Rightarrow> table" where
  "ex_hours flag =
     \<lparr>cols = [''price'', ''local_min'', ''local_max''],
      rows = [\<lparr>key = \<lparr>coin = ''BTC'', timestamp = 0, day = 0\<rparr>,
               vals = [''price'' \<mapsto> Fin 100, ''local_min'' \<mapsto> flag, ''local_max'' \<mapsto> Fin 0]\<rparr>,
              \<lparr>key = \<lparr>coin = ''BTC'', timestamp = 1, day = 0\<rparr>,
               vals = [''price'' \<mapsto> Fin 150, ''local_min'' \<mapsto> Fin 0, ''local_max'' \<mapsto> flag]\<rparr>,
              \<lparr>key = \<lparr>coin = ''BTC'', timestamp = 24, day = 1\<rparr>,
               vals = [''price'' \<mapsto> Fin 120, ''local_min'' \<mapsto> Fin 0, ''local_max'' \<mapsto> Fin 0]\<rparr>]\<rparr>"

section \<open>News loader (\<open>a2_load_crypto_news.py\<close>)\<close>

text \<open>
  A fetched article. \<open>published_day\<close> is an ISO date string in the source; the model keeps
  the day number, which orders and enumerates the same way. An article whose date could
  not be parsed has \<open>published_hour = -1\<close>. The polarity of an abstract comes from a text
  model outside the repository and is a parameter.
\<close>

record article =
  a_coin :: string
  a_day :: int
  a_hour :: int
  a_title :: string
  a_abstract :: string

record news_row =
  n_coin :: string
  n_day :: int
  n_hour :: int
  n_vals :: "string \<rightharpoonup> fl"

definition news_key :: "article \<Rightarrow> string \<times> int \<times> int" where
  "news_key a = (a_coin a, a_day a, a_hour a)"

definition fillna0 :: "fl \<Rightarrow> fl" where
  "fillna0 x = (if x = NaN then Fin 0 else x)"

text \<open>
  Lines 147 to 150: one row per (coin, day, hour) that has an article, in key order, with
  the number of articles and the sum of their polarities; then \<open>fillna(0)\<close> on both.
\<close>

definition aggregate_news :: "(string \<Rightarrow> real) \<Rightarrow> article list \<Rightarrow> news_row list" where
  "aggregate_news polarity df =
     map (\<lambda>k. let g = filter (\<lambda>a. news_key a = k) df in
               \<lparr>n_coin = fst k, n_day = fst (snd k), n_hour = snd (snd k),
                n_vals = [''news_count'' \<mapsto> fillna0 (Fin (real (length g))),
                          ''news_sentiment'' \<mapsto>
                            fillna0 (Fin (sum_list (map (\<lambda>a. polarity (a_abstract a)) g)))]\<rparr>)
       (sort (remdups (map news_key df)))"

text \<open>
  \<open>enlarge_dataframe\<close>: the grid of every coin, every day from the first to the last day
  of the table and every hour 0..23, left-joined with the table. A cell without a row in
  the table gets null values. On an empty table the date range cannot be built.
\<close>

definition grid_keys :: "news_row list \<Rightarrow> (string \<times> int \<times> int) list" where
  "grid_keys df =
     (let min_date = fold min (map n_day df) (n_day (hd df));
          max_date = fold max (map n_day df) (n_day (hd df))
      in concat (map (\<lambda>c. concat (map (\<lambda>d. map (\<lambda>h. (c, d, h)) [0..23]) [min_date..max_date]))
                   (unique (map n_coin df))))"

definition enlarge_dataframe :: "news_row list \<Rightarrow> py_error + news_row list" where
  "enlarge_dataframe df =
     (if df = [] then Inl ValueError
      else Inr (concat (map (\<lambda>(c, d, h).
        let ms = filter (\<lambda>r. n_coin r = c \<and> n_day r = d \<and> n_hour r = h) df in
        if ms = []
        then [\<lparr>n_coin = c, n_day = d, n_hour = h,
                n_vals = [''news_count'' \<mapsto> NaN, ''news_sentiment'' \<mapsto> NaN]\<rparr>]
        else map (\<lambda>r. \<lparr>n_coin = c, n_day = d, n_hour = h, n_vals = n_vals r\<rparr>) ms)
        (grid_keys df))))"

definition ncell :: "string \<Rightarrow> news_row \<Rightarrow> fl" where
  "ncell name r = (case n_vals r name of Some v \<Rightarrow> v | None \<Rightarrow> NaN)"

text \<open>
  \<open>rolling_count_sum\<close>: sorted by (coin, day, hour), a backward rolling sum with
  \<open>min_periods = 1\<close> of both columns per coin; every window range of the callers is positive.
\<close>

definition set_ncol :: "string \<Rightarrow> fl list \<Rightarrow> news_row list \<Rightarrow> news_row list" where
  "set_ncol name vs df = map (\<lambda>(r, v). r\<lparr>n_vals := (n_vals r)(name \<mapsto> v)\<rparr>) (zip df vs)"

definition rolling_count_sum :: "news_row list \<Rightarrow> nat \<Rightarrow> news_row list" where
  "rolling_count_sum df0 window_range =
     (let df = sort_key (\<lambda>r. (n_coin r, n_day r, n_hour r)) df0;
          name_count = ''news_count_'' @ str_nat window_range;
          name_sent = ''news_sentiment_'' @ str_nat window_range;
          df1 = set_ncol name_count
                  (group_transform (rolling agg_sum window_range 1 False) (map n_coin df)
                     (map (ncell ''news_count'') df)) df;
          df2 = set_ncol name_sent
                  (group_transform (rolling agg_sum window_range 1 False) (map n_coin df1)
                     (map (ncell ''news_sentiment'') df1)) df1
      in df2)"

text \<open>
  The table before the rolling sums (line 152), and \<open>prepare_crypto_news\<close> on the fetched
  articles. \<open>pd.DataFrame([])\<close> has no column \<open>published_hour\<close>.
\<close>

definition news_grid :: "(string \<Rightarrow> real) \<Rightarrow> article list \<Rightarrow> py_error + news_row list" where
  "news_grid polarity all_news =
     (if all_news = [] then Inl AttributeError
      else
        let df_all_news = unique (filter (\<lambda>a. a_hour a > - 1) all_news);
            df_all_news_sent = aggregate_news polarity df_all_news
        in enlarge_dataframe df_all_news_sent)"

definition prepare_crypto_news :: "(string \<Rightarrow> real) \<Rightarrow> article list \<Rightarrow> py_error + news_row list" where
  "prepare_crypto_news polarity all_news =
     (case news_grid polarity all_news of
        Inl e \<Rightarrow> Inl e
      | Inr df_grid_news \<Rightarrow>
          Inr (rolling_count_sum
                 (rolling_count_sum (rolling_count_sum (rolling_count_sum df_grid_news 3) 6) 12) 24))"

text \<open>One article on Bitcoin, published at hour 5 of day 0.\<close>

definition ex_news :: "article list" where
  "ex_news = [\<lparr>a_coin = ''Bitcoin'', a_day = 0, a_hour = 5, a_title = ''t'', a_abstract = ''a''\<rparr>]"

section \<open>Forward percent change\<close>

lemma length_shift: "length (shift p xs) = length xs"
  by (simp add: shift_def)


lemma length_pct_change: "length (pct_change rnd h xs) = length xs"
  by (simp add: pct_change_def length_shift)


lemma length_future_change: "length (future_change rnd h price) = length price"
  by (simp add: future_change_def length_pct_change length_shift)










section \<open>Rolling volume statistics\<close>

lemma finite_obs_map_Fin: "finite_obs (map Fin ys) = ys"
  by (induction ys) simp_all

lemma window_obs_backward:
  assumes "i < length vs"
  shows "window_obs w False (map Fin vs) i = take (min w (Suc i)) (drop (Suc i - w) vs)"
proof -
  have "Suc i - w \<le> length vs" "Suc i \<le> length vs" using assms by arith+
  then have "window_bounds (length vs) w False i = (Suc i - w, Suc i)"
    by (simp add: window_bounds_def Let_def min_absorb1)
  moreover have "Suc i - (Suc i - w) = min w (Suc i)" by arith
  ultimately show ?thesis
    by (simp add: window_obs_def take_map drop_map finite_obs_map_Fin)
qed

lemma length_window_obs_backward:
  assumes "i < length vs"
  shows "length (window_obs w False (map Fin vs) i) = min w (Suc i)"
  using assms by (simp add: window_obs_backward)

lemma length_rolling: "length (rolling agg w minp center xs) = length xs"
  by (simp add: rolling_def)

lemma nth_rolling:
  "i < length xs \<Longrightarrow>
   rolling agg w minp center xs ! i =
     (if minp \<le> length (window_obs w center xs i) then agg (window_obs w center xs i) else NaN)"
  by (simp add: rolling_def Let_def)

lemma length_avg_volume: "length (avg_volume h volume) = length volume"
  by (simp add: avg_volume_def length_rolling)

lemma length_volatility_volume: "length (volatility_volume h volume) = length volume"
  by (simp add: volatility_volume_def length_rolling length_avg_volume)

lemma avg_volume_nan_iff:
  assumes "i < length vs" "0 < h"
  shows "(avg_volume h (map Fin vs) ! i = NaN) = (i < h - 1)"
proof -
  let ?obs = "window_obs h False (map Fin vs) i"
  have len: "length ?obs = min h (Suc i)" using assms by (simp add: length_window_obs_backward)
  show ?thesis
  proof (cases "i < h - 1")
    case True
    then have "\<not> h \<le> length ?obs" using len by simp
    then show ?thesis using assms True by (simp add: avg_volume_def nth_rolling)
  next
    case False
    then have "h \<le> length ?obs" using len assms by simp
    moreover from this assms have "?obs \<noteq> []" by auto
    ultimately show ?thesis using assms False by (simp add: avg_volume_def nth_rolling agg_mean_def)
  qed
qed

lemma sum_list_squares_zero:
  fixes obs :: "real list"
  shows "(sum_list (map (\<lambda>x. x\<^sup>2) obs) = 0) = list_all (\<lambda>x. x = 0) obs"
proof (induction obs)
  case Nil
  show ?case by simp
next
  case (Cons x xs)
  have nn: "0 \<le> sum_list (map (\<lambda>x. x\<^sup>2) xs)"
    by (rule sum_list_nonneg) auto
  have "(x\<^sup>2 + sum_list (map (\<lambda>x. x\<^sup>2) xs) = 0) = (x\<^sup>2 = 0 \<and> sum_list (map (\<lambda>x. x\<^sup>2) xs) = 0)"
    using nn by (simp add: add_nonneg_eq_0_iff)
  with Cons show ?case by simp
qed

lemma sum_list_all_zero:
  fixes obs :: "real list"
  shows "list_all (\<lambda>x. x = 0) obs \<Longrightarrow> sum_list obs = 0"
  by (induction obs) simp_all

lemma std_over_mean_nan_iff:
  fixes obs :: "real list"
  assumes "2 \<le> length obs"
  shows "(fdiv (agg_std obs) (agg_mean obs) = NaN) = list_all (\<lambda>x. x = 0) obs"
proof -
  let ?n = "length obs"
  let ?m = "sum_list obs / real ?n"
  let ?v = "sum_list (map (\<lambda>x. (x - ?m)\<^sup>2) obs) / real (?n - 1)"
  have ne: "obs \<noteq> []" using assms by auto
  have std: "agg_std obs = Fin (sqrt ?v)" using assms by (simp add: agg_std_def Let_def)
  have mean: "agg_mean obs = Fin ?m" using ne by (simp add: agg_mean_def)
  have "(fdiv (agg_std obs) (agg_mean obs) = NaN) = (?m = 0 \<and> sqrt ?v = 0)"
    by (simp add: std mean)
  also have "\<dots> = list_all (\<lambda>x. x = 0) obs"
  proof
    assume A: "?m = 0 \<and> sqrt ?v = 0"
    then have m0: "?m = 0" and v0: "?v = 0" by simp_all
    from v0 have "sum_list (map (\<lambda>x. (x - 0)\<^sup>2) obs) / real (?n - 1) = 0"
      unfolding m0 .
    then have "sum_list (map (\<lambda>x. x\<^sup>2) obs) / real (?n - 1) = 0" by simp
    moreover have "real (?n - 1) \<noteq> 0" using assms by simp
    ultimately have "sum_list (map (\<lambda>x. x\<^sup>2) obs) = 0" by simp
    then show "list_all (\<lambda>x. x = 0) obs" by (simp add: sum_list_squares_zero)
  next
    assume Z: "list_all (\<lambda>x. x = 0) obs"
    then have m0: "?m = 0" by (simp add: sum_list_all_zero)
    have "sum_list (map (\<lambda>x. (x - 0)\<^sup>2) obs) = 0"
      using Z by (simp add: sum_list_squares_zero)
    then have "sum_list (map (\<lambda>x. (x - ?m)\<^sup>2) obs) = 0"
      unfolding m0 .
    then have "?v = 0" by simp
    then have "sqrt ?v = 0" by (simp only: real_sqrt_zero)
    with m0 show "?m = 0 \<and> sqrt ?v = 0" by (rule conjI)
  qed
  finally show ?thesis .
qed

lemma nth_volatility_volume:
  "i < length volume \<Longrightarrow>
   volatility_volume h volume ! i = fdiv (rolling agg_std h h False volume ! i) (avg_volume h volume ! i)"
  by (simp add: volatility_volume_def length_rolling length_avg_volume)

lemma volatility_volume_nan_early:
  assumes "i < length vs" "i < h - 1"
  shows "volatility_volume h (map Fin vs) ! i = NaN"
proof -
  have "0 < h" using assms by simp
  then have "avg_volume h (map Fin vs) ! i = NaN" using assms by (simp add: avg_volume_nan_iff)
  then show ?thesis using assms(1) by (simp add: nth_volatility_volume)
qed

lemma volatility_volume_nan_later:
  assumes "i < length vs" "h - 1 \<le> i" "2 \<le> h"
  shows "(volatility_volume h (map Fin vs) ! i = NaN) =
         list_all (\<lambda>x. x = 0) (take h (drop (Suc i - h) vs))"
proof -
  let ?obs = "window_obs h False (map Fin vs) i"
  have obs: "?obs = take h (drop (Suc i - h) vs)"
    using assms by (simp add: window_obs_backward min_def)
  have len: "length ?obs = h" using assms by (simp add: length_window_obs_backward)
  have "volatility_volume h (map Fin vs) ! i = fdiv (agg_std ?obs) (agg_mean ?obs)"
    using assms(1) len by (simp add: nth_volatility_volume avg_volume_def nth_rolling)
  moreover have "2 \<le> length ?obs" using len assms by simp
  ultimately show ?thesis using std_over_mean_nan_iff [of ?obs] obs by simp
qed

section \<open>Aggregated bars\<close>



lemma make_bar_volume:
  "b_volume (make_bar coin_name agg_level fetched k) =
   Fin (sum_list (map c_volume (filter (\<lambda>c. group_key agg_level c = k) fetched)))"
  by (simp add: make_bar_def Let_def)



lemma basic_prep_bars:
  assumes "basic_prep_ohlcv_df fetched coin_name agg_level = Inr df"
  shows "df = map (make_bar coin_name agg_level fetched) (sort (remdups (map (group_key agg_level) fetched)))"
  using assms by (simp add: basic_prep_ohlcv_df_def split: if_splits)






lemma basic_prep_volumes:
  assumes "basic_prep_ohlcv_df fetched coin_name agg_level = Inr df"
  shows "map b_volume df = map Fin (bar_volumes agg_level fetched)"
  unfolding basic_prep_bars [OF assms] bar_volumes_def
  by (simp add: make_bar_volume)

lemma prep_returns_iff:
  "(\<exists>df. prep_ohlcv_df rnd fetched coin_name agg_level = Inr df) =
   (set [Coin, Timestamp, Weekday, Day, Hour] \<subseteq> set agg_level)"
  by (auto simp: prep_ohlcv_df_def basic_prep_ohlcv_df_def Let_def)

lemma prep_bars:
  assumes "prep_ohlcv_df rnd fetched coin_name agg_level = Inr df"
  shows "basic_prep_ohlcv_df fetched coin_name agg_level = Inr (p_bars df)"
  using assms
  by (auto simp: prep_ohlcv_df_def Let_def split: sum.splits if_splits)

lemma prep_features:
  assumes "prep_ohlcv_df rnd fetched coin_name agg_level = Inr df" "h \<in> set volume_windows"
  shows "map_of (p_features df) (AvgVolume h) = Some (avg_volume h (map b_volume (p_bars df)))"
    and "map_of (p_features df) (VolatilityVolume h) = Some (volatility_volume h (map b_volume (p_bars df)))"
  using assms
  by (auto simp: prep_ohlcv_df_def Let_def volume_windows_def split: sum.splits if_splits)

lemma ex_hourly_keys:
  "map (group_key ex_agg_level) (ex_hourly [v0, v1, v2, v3, v4, v5]) =
   [[0, 0, 3, 0, 0], [0, 3600000, 3, 0, 1], [0, 7200000, 3, 0, 2], [0, 10800000, 3, 0, 3],
    [0, 14400000, 3, 0, 4], [0, 18000000, 3, 0, 5]]"
  by (simp add: ex_hourly_def ex_agg_level_def group_key_def upt_rec [of 0] upt_rec [of "Suc _"])

lemma ex_hourly_sorted_keys:
  "sort (remdups (map (group_key ex_agg_level) (ex_hourly [v0, v1, v2, v3, v4, v5]))) =
   [[0, 0, 3, 0, 0], [0, 3600000, 3, 0, 1], [0, 7200000, 3, 0, 2], [0, 10800000, 3, 0, 3],
    [0, 14400000, 3, 0, 4], [0, 18000000, 3, 0, 5]]"
  unfolding ex_hourly_keys by simp

lemma ex_hourly_volumes:
  "bar_volumes ex_agg_level (ex_hourly [v0, v1, v2, v3, v4, v5]) = [v0, v1, v2, v3, v4, v5]"
  unfolding bar_volumes_def ex_hourly_sorted_keys
  by (simp add: ex_hourly_def ex_agg_level_def group_key_def upt_rec [of 0] upt_rec [of "Suc _"])


lemma zero_window_bars:
  assumes "map b_volume bars = map Fin vs"
  shows "list_all (\<lambda>x. x = 0) (take h (drop k vs)) =
         list_all (\<lambda>b. b_volume b = Fin 0) (take h (drop k bars))"
proof -
  have "list_all (\<lambda>b. b_volume b = Fin 0) (take h (drop k bars)) =
        list_all (\<lambda>y. y = Fin 0) (take h (drop k (map b_volume bars)))"
    by (simp add: take_map drop_map list_all_iff)
  also have "\<dots> = list_all (\<lambda>y. y = Fin 0) (map Fin (take h (drop k vs)))"
    by (simp add: assms take_map drop_map)
  also have "\<dots> = list_all (\<lambda>x. x = 0) (take h (drop k vs))"
    by (simp add: list_all_iff)
  finally show ?thesis by simp
qed

lemma rolling_volume_columns_at:
  assumes "prep_ohlcv_df rnd fetched coin_name agg_level = Inr df"
    and "h \<in> set volume_windows"
    and "i < length (p_bars df)"
  shows "\<exists>avg vol.
      map_of (p_features df) (AvgVolume h) = Some avg \<and>
      map_of (p_features df) (VolatilityVolume h) = Some vol \<and>
      length avg = length (p_bars df) \<and> length vol = length (p_bars df) \<and>
      (avg ! i = NaN) = (i < h - 1) \<and>
      (i < h - 1 \<longrightarrow> vol ! i = NaN) \<and>
      (h - 1 \<le> i \<longrightarrow>
         (vol ! i = NaN) =
         list_all (\<lambda>b. b_volume b = Fin 0) (take h (drop (Suc i - h) (p_bars df))))"
proof -
  let ?vs = "bar_volumes agg_level fetched"
  have vols: "map b_volume (p_bars df) = map Fin ?vs"
    by (rule basic_prep_volumes [OF prep_bars [OF assms(1)]])
  then have "length (map b_volume (p_bars df)) = length (map Fin ?vs)" by simp
  then have len: "length (p_bars df) = length ?vs" by simp
  have i: "i < length ?vs" using assms(3) len by simp
  have h: "2 \<le> h" "0 < h" using assms(2) by (auto simp: volume_windows_def)
  have a: "(avg_volume h (map Fin ?vs) ! i = NaN) = (i < h - 1)"
    by (rule avg_volume_nan_iff [OF i h(2)])
  have b: "i < h - 1 \<longrightarrow> volatility_volume h (map Fin ?vs) ! i = NaN"
    using volatility_volume_nan_early [OF i] by simp
  have c: "h - 1 \<le> i \<longrightarrow>
      (volatility_volume h (map Fin ?vs) ! i = NaN) =
      list_all (\<lambda>b. b_volume b = Fin 0) (take h (drop (Suc i - h) (p_bars df)))"
    using volatility_volume_nan_later [OF i _ h(1)] zero_window_bars [OF vols] by simp
  show ?thesis
    unfolding prep_features [OF assms(1,2)] vols
    using a b c by (simp add: length_avg_volume length_volatility_volume len)
qed

lemma ex_hourly_prep:
  "\<exists>df. prep_ohlcv_df Fin (ex_hourly vs) ''BTC/USD'' ex_agg_level = Inr df"
  unfolding prep_returns_iff by (simp add: ex_agg_level_def)

lemma ex_hourly_bar_volumes:
  assumes "prep_ohlcv_df Fin (ex_hourly [v0, v1, v2, v3, v4, v5]) ''BTC/USD'' ex_agg_level = Inr df"
  shows "map b_volume (p_bars df) = [Fin v0, Fin v1, Fin v2, Fin v3, Fin v4, Fin v5]"
  using basic_prep_volumes [OF prep_bars [OF assms]] by (simp add: ex_hourly_volumes)

text \<open>
  C6 (amended). Whenever \<open>agg_level\<close> names the key columns that the final column selection
  needs, \<open>prep_ohlcv_df\<close> returns a table whatever the number of candles is. For every
  configured volume window \<open>h\<close>, \<open>avg_volume_h\<close> is NaN on exactly the first \<open>h - 1\<close> rows;
  \<open>volatility_volume_h\<close> is NaN on the first \<open>h - 1\<close> rows, and on a later row it is NaN
  exactly when the \<open>h\<close> rows of its window all have volume 0 (standard deviation 0 over
  mean 0).
\<close>

theorem rolling_volume_columns:
  assumes "set [Coin, Timestamp, Weekday, Day, Hour] \<subseteq> set agg_level"
    and "h \<in> set volume_windows"
  shows "\<exists>df avg vol.
      prep_ohlcv_df rnd fetched coin_name agg_level = Inr df \<and>
      map_of (p_features df) (AvgVolume h) = Some avg \<and>
      map_of (p_features df) (VolatilityVolume h) = Some vol \<and>
      length avg = length (p_bars df) \<and> length vol = length (p_bars df) \<and>
      (\<forall>i < length (p_bars df).
         (avg ! i = NaN) = (i < h - 1) \<and>
         (i < h - 1 \<longrightarrow> vol ! i = NaN) \<and>
         (h - 1 \<le> i \<longrightarrow>
            (vol ! i = NaN) =
            list_all (\<lambda>b. b_volume b = Fin 0) (take h (drop (Suc i - h) (p_bars df)))))"
proof -
  from assms(1) obtain df where df: "prep_ohlcv_df rnd fetched coin_name agg_level = Inr df"
    using prep_returns_iff [of rnd fetched coin_name agg_level] by blast
  let ?avg = "avg_volume h (map b_volume (p_bars df))"
  let ?vol = "volatility_volume h (map b_volume (p_bars df))"
  have f: "map_of (p_features df) (AvgVolume h) = Some ?avg"
    "map_of (p_features df) (VolatilityVolume h) = Some ?vol"
    by (rule prep_features [OF df assms(2)])+
  have l: "length ?avg = length (p_bars df)" "length ?vol = length (p_bars df)"
    by (simp_all add: length_avg_volume length_volatility_volume)
  have "\<forall>i < length (p_bars df).
         (?avg ! i = NaN) = (i < h - 1) \<and>
         (i < h - 1 \<longrightarrow> ?vol ! i = NaN) \<and>
         (h - 1 \<le> i \<longrightarrow>
            (?vol ! i = NaN) =
            list_all (\<lambda>b. b_volume b = Fin 0) (take h (drop (Suc i - h) (p_bars df))))"
  proof (intro allI impI)
    fix i assume "i < length (p_bars df)"
    from rolling_volume_columns_at [OF df assms(2) this] f
    show "(?avg ! i = NaN) = (i < h - 1) \<and>
         (i < h - 1 \<longrightarrow> ?vol ! i = NaN) \<and>
         (h - 1 \<le> i \<longrightarrow>
            (?vol ! i = NaN) =
            list_all (\<lambda>b. b_volume b = Fin 0) (take h (drop (Suc i - h) (p_bars df))))"
      by auto
  qed
  with df f l show ?thesis by blast
qed

theorem rolling_volume_columns_witness:
  "set [Coin, Timestamp, Weekday, Day, Hour] \<subseteq> set ex_agg_level \<and> 6 \<in> set volume_windows \<and>
   (\<exists>df avg vol.
     prep_ohlcv_df Fin (ex_hourly [1, 2, 3, 4, 5, 6]) ''BTC/USD'' ex_agg_level = Inr df \<and>
     length (p_bars df) = 6 \<and>
     map_of (p_features df) (AvgVolume 6) = Some avg \<and>
     map_of (p_features df) (VolatilityVolume 6) = Some vol \<and>
     avg ! 4 = NaN \<and> vol ! 4 = NaN \<and> avg ! 5 \<noteq> NaN \<and> vol ! 5 \<noteq> NaN)"
proof -
  have a: "set [Coin, Timestamp, Weekday, Day, Hour] \<subseteq> set ex_agg_level"
    by (simp add: ex_agg_level_def)
  have h: "6 \<in> set volume_windows" by (simp add: volume_windows_def)
  from rolling_volume_columns [OF a h, where fetched = "ex_hourly [1, 2, 3, 4, 5, 6]"
      and coin_name = "''BTC/USD''" and rnd = Fin]
  obtain df avg vol where
    df: "prep_ohlcv_df Fin (ex_hourly [1, 2, 3, 4, 5, 6]) ''BTC/USD'' ex_agg_level = Inr df"
    and f: "map_of (p_features df) (AvgVolume 6) = Some avg"
      "map_of (p_features df) (VolatilityVolume 6) = Some vol"
    and r: "\<forall>i < length (p_bars df).
         (avg ! i = NaN) = (i < 6 - 1) \<and>
         (i < 6 - 1 \<longrightarrow> vol ! i = NaN) \<and>
         (6 - 1 \<le> i \<longrightarrow>
            (vol ! i = NaN) =
            list_all (\<lambda>b. b_volume b = Fin 0) (take 6 (drop (Suc i - 6) (p_bars df))))"
    by blast
  have vols: "map b_volume (p_bars df) = [Fin 1, Fin 2, Fin 3, Fin 4, Fin 5, Fin 6]"
    by (rule ex_hourly_bar_volumes [OF df])
  then have "length (map b_volume (p_bars df)) = 6" by simp
  then have len: "length (p_bars df) = 6" by simp
  have nz: "\<not> list_all (\<lambda>b. b_volume b = Fin 0) (take 6 (drop (Suc 5 - 6) (p_bars df)))"
  proof -
    have "list_all (\<lambda>b. b_volume b = Fin 0) (take 6 (drop (Suc 5 - 6) (p_bars df))) =
          list_all (\<lambda>y. y = Fin 0) (map b_volume (p_bars df))"
      using len by (simp add: list_all_iff)
    then show ?thesis by (simp add: vols)
  qed
  from r len have r4: "avg ! 4 = NaN \<and> vol ! 4 = NaN" by simp
  from r len nz have r5: "avg ! 5 \<noteq> NaN \<and> vol ! 5 \<noteq> NaN" by simp
  from a h df len f r4 r5 show ?thesis by blast
qed

text \<open>
  The claim as stated fails for the volatility column: six hourly candles without trades
  give six rows, and row 5, the first row with a full window of 6, has
  \<open>volatility_volume_6h\<close> = 0 / 0 = NaN.
\<close>

theorem volatility_zero_volume_counterexample:
  "(case prep_ohlcv_df Fin (ex_hourly [0, 0, 0, 0, 0, 0]) ''BTC/USD'' ex_agg_level of
      Inl e \<Rightarrow> None
    | Inr df \<Rightarrow> map_option (\<lambda>vol. (length (p_bars df), vol ! 5)) (map_of (p_features df) (VolatilityVolume 6)))
   = Some (6, NaN)"
proof -
  obtain df where df: "prep_ohlcv_df Fin (ex_hourly [0, 0, 0, 0, 0, 0]) ''BTC/USD'' ex_agg_level = Inr df"
    using ex_hourly_prep by blast
  have h: "6 \<in> set volume_windows" by (simp add: volume_windows_def)
  have vols: "map b_volume (p_bars df) = [Fin 0, Fin 0, Fin 0, Fin 0, Fin 0, Fin 0]"
    by (rule ex_hourly_bar_volumes [OF df])
  then have "length (map b_volume (p_bars df)) = 6" by simp
  then have len: "length (p_bars df) = 6" by simp
  have "volatility_volume 6 (map b_volume (p_bars df)) ! 5 = NaN"
    unfolding vols
    by (simp add: volatility_volume_def avg_volume_def rolling_def window_obs_def window_bounds_def
        agg_std_def agg_mean_def Let_def)
  then show ?thesis
    by (simp add: df prep_features(2) [OF df h] len)
qed

section \<open>Feature tables\<close>

subsection \<open>Columns of a table\<close>

lemma cell_update:
  "cell c (r\<lparr>vals := (vals r)(n \<mapsto> v)\<rparr>) = (if c = n then v else cell c r)"
  by (simp add: cell_def)

lemma length_rows_set_col:
  "length vs = length (rows df) \<Longrightarrow> length (rows (set_col n vs df)) = length (rows df)"
  by (simp add: set_col_def)

lemma nth_rows_set_col:
  assumes "length vs = length (rows df)" "i < length (rows df)"
  shows "rows (set_col n vs df) ! i = (rows df ! i)\<lparr>vals := (vals (rows df ! i))(n \<mapsto> vs ! i)\<rparr>"
  using assms by (simp add: set_col_def)

lemma key_rows_set_col:
  assumes "length vs = length (rows df)" "i < length (rows df)"
  shows "key (rows (set_col n vs df) ! i) = key (rows df ! i)"
  using assms by (simp add: nth_rows_set_col)

lemma vals_rows_set_col:
  assumes "length vs = length (rows df)" "i < length (rows df)"
  shows "vals (rows (set_col n vs df) ! i) c = (if c = n then Some (vs ! i) else vals (rows df ! i) c)"
  using assms by (simp add: nth_rows_set_col)

lemma cell_rows_set_col:
  assumes "length vs = length (rows df)" "i < length (rows df)"
  shows "cell c (rows (set_col n vs df) ! i) = (if c = n then vs ! i else cell c (rows df ! i))"
  using assms by (simp add: nth_rows_set_col cell_update)

lemma groups_set_col:
  assumes "length vs = length (rows df)"
  shows "groups col_group (set_col n vs df) = groups col_group df"
proof (rule nth_equalityI)
  show "length (groups col_group (set_col n vs df)) = length (groups col_group df)"
    using assms by (simp add: groups_def length_rows_set_col)
next
  fix i assume "i < length (groups col_group (set_col n vs df))"
  then have "i < length (rows df)" using assms by (simp add: groups_def length_rows_set_col)
  then show "groups col_group (set_col n vs df) ! i = groups col_group df ! i"
    using assms by (simp add: groups_def length_rows_set_col key_rows_set_col)
qed

lemma length_groups: "length (groups col_group df) = length (rows df)"
  by (simp add: groups_def)

lemma length_group_transform: "length (group_transform f gs xs) = length gs"
  by (simp add: group_transform_def)

lemma length_transform_col: "length (transform_col f col_group name df) = length (rows df)"
  by (simp add: transform_col_def length_group_transform length_groups)

lemma length_rows_sort_values: "length (rows (sort_values col_sort df)) = length (rows df)"
  by (simp add: sort_values_def)

subsection \<open>Positions within a group\<close>

lemma filter_positions:
  "filter P xs = map (\<lambda>j. xs ! j) (filter (\<lambda>j. P (xs ! j)) [0..<length xs])"
proof (induction xs rule: rev_induct)
  case Nil
  show ?case by simp
next
  case (snoc x xs)
  have "filter (\<lambda>j. P ((xs @ [x]) ! j)) [0..<length xs] = filter (\<lambda>j. P (xs ! j)) [0..<length xs]"
    by (rule filter_cong) (auto simp: nth_append)
  moreover have "map (\<lambda>j. (xs @ [x]) ! j) (filter (\<lambda>j. P (xs ! j)) [0..<length xs]) =
                 map (\<lambda>j. xs ! j) (filter (\<lambda>j. P (xs ! j)) [0..<length xs])"
    by (rule map_cong) (auto simp: nth_append)
  ultimately show ?case using snoc by (simp add: nth_append)
qed

lemma rank_positions:
  "map (\<lambda>j. length (filter Q [0..<j])) (filter Q [0..<n]) = [0..<length (filter Q [0..<n])]"
  by (induction n) simp_all

lemma rank_nth_position:
  assumes "i < length (filter Q [0..<n])"
  shows "length (filter Q [0..<filter Q [0..<n] ! i]) = i"
proof -
  have "map (\<lambda>j. length (filter Q [0..<j])) (filter Q [0..<n]) ! i = [0..<length (filter Q [0..<n])] ! i"
    by (simp only: rank_positions)
  then show ?thesis using assms by simp
qed

lemma nth_position_member:
  assumes "i < length (filter Q [0..<n])"
  shows "Q (filter Q [0..<n] ! i) \<and> filter Q [0..<n] ! i < n"
proof -
  have "filter Q [0..<n] ! i \<in> set (filter Q [0..<n])" using assms by (rule nth_mem)
  then show ?thesis by simp
qed

text \<open>The entry of a transformed column at the \<open>i\<close>-th row of group \<open>g\<close>.\<close>

lemma group_transform_at_position:
  assumes "i < length (filter (\<lambda>j. gs ! j = g) [0..<length gs])"
  shows "group_transform f gs xs ! (filter (\<lambda>j. gs ! j = g) [0..<length gs] ! i) =
         f (map (\<lambda>j. xs ! j) (filter (\<lambda>j. gs ! j = g) [0..<length gs])) ! i"
proof -
  let ?pos = "filter (\<lambda>j. gs ! j = g) [0..<length gs]"
  from nth_position_member [OF assms] have m: "gs ! (?pos ! i) = g" and l: "?pos ! i < length gs"
    by simp_all
  have "group_transform f gs xs ! (?pos ! i) =
        f (map (\<lambda>j. xs ! j) (filter (\<lambda>j. gs ! j = gs ! (?pos ! i)) [0..<length gs])) !
          length (filter (\<lambda>j. gs ! j = gs ! (?pos ! i)) [0..<?pos ! i])"
    using l by (simp add: group_transform_def)
  also have "\<dots> = f (map (\<lambda>j. xs ! j) ?pos) ! length (filter (\<lambda>j. gs ! j = g) [0..<?pos ! i])"
    by (simp only: m)
  also have "\<dots> = f (map (\<lambda>j. xs ! j) ?pos) ! i"
    by (simp only: rank_nth_position [OF assms])
  finally show ?thesis .
qed

subsection \<open>Centered windows at the ends of a series\<close>

lemma length_finite_obs: "length (finite_obs xs) \<le> length xs"
  by (induction xs rule: finite_obs.induct) simp_all

lemma centered_window_short:
  assumes "i < n" "i < (w - 1) div 2 \<or> n - (w - 1) div 2 \<le> i"
    and "window_bounds n w True i = (s, e)"
  shows "e - s < w"
proof -
  define off where "off = (w - 1) div 2"
  have o: "2 * off \<le> w - 1" by (simp add: off_def)
  have s: "s = min (i + 1 + off - w) n" and e: "e = min (i + 1 + off) n"
    using assms(3) by (simp_all add: window_bounds_def Let_def off_def)
  from assms(2) have "i < off \<or> n - off \<le> i" by (simp add: off_def)
  then show ?thesis
    using assms(1) o unfolding s e by (auto simp: min_def)
qed

lemma rolling_center_boundary:
  assumes "i < length xs" "i < (w - 1) div 2 \<or> length xs - (w - 1) div 2 \<le> i"
  shows "rolling agg w w True xs ! i = NaN"
proof -
  obtain s e where b: "window_bounds (length xs) w True i = (s, e)" by force
  have "length (window_obs w True xs i) \<le> length (take (e - s) (drop s xs))"
    unfolding window_obs_def b by (simp only: prod.case length_finite_obs)
  also have "\<dots> \<le> e - s" by simp
  also have "\<dots> < w" by (rule centered_window_short [OF assms b])
  finally have "\<not> w \<le> length (window_obs w True xs i)" by simp
  then show ?thesis using assms(1) by (simp add: nth_rolling)
qed

lemma flag_equal_NaN: "flag_equal x NaN = Fin 0"
  by (cases x) (simp_all add: flag_equal_def)

subsection \<open>Flags at the ends of a group\<close>

lemma group_rows_positions:
  "group_rows col_group g df =
   map (\<lambda>j. rows df ! j) (filter (\<lambda>j. groups col_group df ! j = g) [0..<length (groups col_group df)])"
proof -
  have "filter (\<lambda>j. col_group (key (rows df ! j)) = g) [0..<length (rows df)] =
        filter (\<lambda>j. groups col_group df ! j = g) [0..<length (rows df)]"
    by (rule filter_cong) (auto simp: groups_def)
  then show ?thesis
    unfolding group_rows_def length_groups
    by (subst filter_positions) simp
qed

lemma length_group_rows:
  "length (group_rows col_group g df) =
   length (filter (\<lambda>j. groups col_group df ! j = g) [0..<length (groups col_group df)])"
  by (simp add: group_rows_positions)

text \<open>
  One flagging step: a centered rolling extreme of column \<open>src\<close> is stored in column \<open>c\<close>,
  then \<open>c\<close> is overwritten by the comparison with column \<open>p\<close>. At the ends of a group the
  rolling value is NaN, so the flag is 0.
\<close>

lemma flag_step_boundary:
  fixes d :: table
  assumes pos: "pos = filter (\<lambda>j. groups col_group d ! j = g) [0..<length (groups col_group d)]"
    and i: "i < length pos"
    and bd: "i < (w - 1) div 2 \<or> length pos - (w - 1) div 2 \<le> i"
    and d': "d' = set_col c (transform_col (rolling agg w w True) col_group src d) d"
    and d'': "d'' = set_col c (map (\<lambda>r. flag_equal (cell p r) (cell c r)) (rows d')) d'"
  shows "vals (rows d'' ! (pos ! i)) c = Some (Fin 0)"
proof -
  let ?T = "transform_col (rolling agg w w True) col_group src d"
  let ?S = "map (\<lambda>j. col src d ! j) pos"
  have j: "pos ! i < length (rows d)"
    using nth_position_member [of i "\<lambda>j. groups col_group d ! j = g" "length (groups col_group d)"] i
    unfolding pos by (simp add: length_groups)
  have lT: "length ?T = length (rows d)" by (rule length_transform_col)
  have l': "length (rows d') = length (rows d)"
    unfolding d' by (rule length_rows_set_col [OF lT])
  have "?T ! (pos ! i) = rolling agg w w True ?S ! i"
    unfolding transform_col_def pos
    by (rule group_transform_at_position) (use i pos in simp)
  also have "\<dots> = NaN"
    by (rule rolling_center_boundary) (use i bd in simp_all)
  finally have T: "?T ! (pos ! i) = NaN" .
  have "cell c (rows d' ! (pos ! i)) = NaN"
    unfolding d' using cell_rows_set_col [OF lT j, of c c] T by simp
  then have "map (\<lambda>r. flag_equal (cell p r) (cell c r)) (rows d') ! (pos ! i) = Fin 0"
    using j l' by (simp add: flag_equal_NaN)
  moreover have "vals (rows d'' ! (pos ! i)) c =
      Some (map (\<lambda>r. flag_equal (cell p r) (cell c r)) (rows d') ! (pos ! i))"
    unfolding d'' using j l' by (subst vals_rows_set_col) simp_all
  ultimately show ?thesis by simp
qed

lemma map_key_set_col:
  assumes "length vs = length (rows df)"
  shows "map key (rows (set_col n vs df)) = map key (rows df)"
proof (rule nth_equalityI)
  show "length (map key (rows (set_col n vs df))) = length (map key (rows df))"
    using assms by (simp add: length_rows_set_col)
next
  fix i assume "i < length (map key (rows (set_col n vs df)))"
  then have "i < length (rows df)" using assms by (simp add: length_rows_set_col)
  then show "map key (rows (set_col n vs df)) ! i = map key (rows df) ! i"
    using assms by (simp add: length_rows_set_col key_rows_set_col)
qed

lemma local_names_differ: "''local_max'' @ suffix \<noteq> ''local_min'' @ suffix"
  by simp

lemma cols_set_col: "set (cols (set_col n vs df)) = insert n (set (cols df))"
  by (auto simp: set_col_def)

lemma cols_sort_values: "cols (sort_values col_sort df) = cols df"
  by (simp add: sort_values_def)

lemma define_local_min_max2_returns:
  "(\<exists>out. define_local_min_max2 df col_price_min col_price_max col_group w suffix col_sort = Inr out) =
   (col_price_max \<in> set (cols df) \<and>
    (col_price_min \<in> set (cols df) \<or> col_price_min = ''local_max'' @ suffix))"
  unfolding define_local_min_max2_def Let_def
  by (auto simp: cols_set_col cols_sort_values)

lemma length_group_rows_keys:
  "length (group_rows col_group g df) = length (filter (\<lambda>k. col_group k = g) (map key (rows df)))"
  unfolding group_rows_def by (simp add: filter_map comp_def)

lemma ex_extrema_sorted_keys:
  "map key (sort_key (\<lambda>r. timestamp (key r)) (rows ex_extrema)) =
   [\<lparr>coin = ''BTC'', timestamp = 0, day = 0\<rparr>, \<lparr>coin = ''ETH'', timestamp = 0, day = 0\<rparr>,
    \<lparr>coin = ''BTC'', timestamp = 1, day = 0\<rparr>, \<lparr>coin = ''BTC'', timestamp = 2, day = 0\<rparr>]"
  by (simp add: ex_extrema_def mk_row_def)

lemma local_min_max2_keys:
  assumes ret: "define_local_min_max2 df col_price_min col_price_max col_group w suffix col_sort = Inr out"
  shows "map key (rows out) = map key (sort_key (\<lambda>r. col_sort (key r)) (rows df))"
proof -
  define cmax where "cmax = ''local_max'' @ suffix"
  define cmin where "cmin = ''local_min'' @ suffix"
  define df1 where "df1 = sort_values col_sort df"
  define df2 where
    "df2 = set_col cmax (transform_col (rolling agg_max w w True) col_group col_price_max df1) df1"
  define df3 where
    "df3 = set_col cmax (map (\<lambda>r. flag_equal (cell col_price_max r) (cell cmax r)) (rows df2)) df2"
  define df4 where
    "df4 = set_col cmin (transform_col (rolling agg_min w w True) col_group col_price_min df3) df3"
  define df5 where
    "df5 = set_col cmin (map (\<lambda>r. flag_equal (cell col_price_min r) (cell cmin r)) (rows df4)) df4"
  have out: "out = df5"
    using ret
    unfolding define_local_min_max2_def Let_def df5_def df4_def df3_def df2_def df1_def cmax_def cmin_def
    by (simp split: if_splits)
  have k2: "map key (rows df2) = map key (rows df1)"
    unfolding df2_def by (rule map_key_set_col) (rule length_transform_col)
  have k3: "map key (rows df3) = map key (rows df2)"
    unfolding df3_def by (rule map_key_set_col) simp
  have k4: "map key (rows df4) = map key (rows df3)"
    unfolding df4_def by (rule map_key_set_col) (rule length_transform_col)
  have k5: "map key (rows df5) = map key (rows df4)"
    unfolding df5_def by (rule map_key_set_col) simp
  show ?thesis
    unfolding out k5 k4 k3 k2 by (simp add: df1_def sort_values_def)
qed

text \<open>
  C7. In the table that the dual-column detector returns, the rows of every group are in
  \<open>col_sort\<close> order, and the first and the last \<open>(window - 1) div 2\<close> rows of the group carry
  \<open>local_max = 0\<close> and \<open>local_min = 0\<close>.
\<close>

theorem local_min_max2_boundary_unflagged:
  assumes ret: "define_local_min_max2 df col_price_min col_price_max col_group w suffix col_sort = Inr out"
    and i: "i < length (group_rows col_group g out)"
    and bd: "i < (w - 1) div 2 \<or> length (group_rows col_group g out) - (w - 1) div 2 \<le> i"
  shows "map key (rows out) = map key (sort_key (\<lambda>r. col_sort (key r)) (rows df)) \<and>
    vals (group_rows col_group g out ! i) (''local_max'' @ suffix) = Some (Fin 0) \<and>
    vals (group_rows col_group g out ! i) (''local_min'' @ suffix) = Some (Fin 0)"
proof -
  define cmax where "cmax = ''local_max'' @ suffix"
  define cmin where "cmin = ''local_min'' @ suffix"
  define df1 where "df1 = sort_values col_sort df"
  define df2 where
    "df2 = set_col cmax (transform_col (rolling agg_max w w True) col_group col_price_max df1) df1"
  define df3 where
    "df3 = set_col cmax (map (\<lambda>r. flag_equal (cell col_price_max r) (cell cmax r)) (rows df2)) df2"
  define df4 where
    "df4 = set_col cmin (transform_col (rolling agg_min w w True) col_group col_price_min df3) df3"
  define df5 where
    "df5 = set_col cmin (map (\<lambda>r. flag_equal (cell col_price_min r) (cell cmin r)) (rows df4)) df4"
  have out: "out = df5"
    using ret
    unfolding define_local_min_max2_def Let_def df5_def df4_def df3_def df2_def df1_def cmax_def cmin_def
    by (simp split: if_splits)
  have ne: "cmin \<noteq> cmax" unfolding cmin_def cmax_def by simp
  have l2: "length (rows df2) = length (rows df1)"
    unfolding df2_def by (rule length_rows_set_col) (rule length_transform_col)
  have l3: "length (rows df3) = length (rows df2)"
    unfolding df3_def by (rule length_rows_set_col) simp
  have l4: "length (rows df4) = length (rows df3)"
    unfolding df4_def by (rule length_rows_set_col) (rule length_transform_col)
  have l5: "length (rows df5) = length (rows df4)"
    unfolding df5_def by (rule length_rows_set_col) simp
  have g2: "groups col_group df2 = groups col_group df1"
    unfolding df2_def by (rule groups_set_col) (rule length_transform_col)
  have g3: "groups col_group df3 = groups col_group df1"
    unfolding df3_def using g2 by (subst groups_set_col) simp_all
  have g4: "groups col_group df4 = groups col_group df3"
    unfolding df4_def by (rule groups_set_col) (rule length_transform_col)
  have g5: "groups col_group df5 = groups col_group df3"
    unfolding df5_def using g4 by (subst groups_set_col) simp_all
  define pos where "pos = filter (\<lambda>j. groups col_group df1 ! j = g) [0..<length (groups col_group df1)]"
  have pos3: "pos = filter (\<lambda>j. groups col_group df3 ! j = g) [0..<length (groups col_group df3)]"
    unfolding pos_def g3 ..
  have pos5: "pos = filter (\<lambda>j. groups col_group df5 ! j = g) [0..<length (groups col_group df5)]"
    unfolding pos3 g5 ..
  have lg: "length (group_rows col_group g out) = length pos"
    unfolding out pos5 by (rule length_group_rows)
  have ip: "i < length pos" using i lg by simp
  have bp: "i < (w - 1) div 2 \<or> length pos - (w - 1) div 2 \<le> i" using bd lg by simp
  have j: "pos ! i < length (rows df1)"
    using nth_position_member [of i "\<lambda>j. groups col_group df1 ! j = g" "length (groups col_group df1)"] ip
    unfolding pos_def by (simp add: length_groups)
  have row: "group_rows col_group g out ! i = rows df5 ! (pos ! i)"
    unfolding out group_rows_positions [of col_group g df5] pos5 [symmetric]
    using ip by simp
  have mx3: "vals (rows df3 ! (pos ! i)) cmax = Some (Fin 0)"
    by (rule flag_step_boundary [OF pos_def ip bp df2_def df3_def])
  have mn5: "vals (rows df5 ! (pos ! i)) cmin = Some (Fin 0)"
    by (rule flag_step_boundary [OF pos3 ip bp df4_def df5_def])
  have "vals (rows df5 ! (pos ! i)) cmax = vals (rows df4 ! (pos ! i)) cmax"
    unfolding df5_def using j l2 l3 l4 ne by (subst vals_rows_set_col) auto
  also have "\<dots> = vals (rows df3 ! (pos ! i)) cmax"
    unfolding df4_def using j l2 l3 ne
    by (subst vals_rows_set_col) (auto simp: length_transform_col)
  finally have mx5: "vals (rows df5 ! (pos ! i)) cmax = Some (Fin 0)" using mx3 by simp
  have keys: "map key (rows out) = map key (sort_key (\<lambda>r. col_sort (key r)) (rows df))"
    by (rule local_min_max2_keys [OF ret])
  show ?thesis
    using keys mx5 mn5 unfolding row cmax_def cmin_def by simp
qed

theorem local_min_max2_boundary_unflagged_witness:
  "\<exists>out. define_local_min_max2 ex_extrema ''low'' ''high'' coin 3 [] timestamp = Inr out \<and>
     length (group_rows coin ''BTC'' out) = 3 \<and>
     vals (group_rows coin ''BTC'' out ! 0) ''local_max'' = Some (Fin 0) \<and>
     vals (group_rows coin ''BTC'' out ! 0) ''local_min'' = Some (Fin 0) \<and>
     vals (group_rows coin ''BTC'' out ! 2) ''local_max'' = Some (Fin 0) \<and>
     vals (group_rows coin ''BTC'' out ! 2) ''local_min'' = Some (Fin 0)"
proof -
  have "\<exists>out. define_local_min_max2 ex_extrema ''low'' ''high'' coin 3 [] timestamp = Inr out"
    unfolding define_local_min_max2_returns by (simp add: ex_extrema_def)
  then obtain out where
    ret: "define_local_min_max2 ex_extrema ''low'' ''high'' coin 3 [] timestamp = Inr out" ..
  have len: "length (group_rows coin ''BTC'' out) = 3"
    unfolding length_group_rows_keys local_min_max2_keys [OF ret] ex_extrema_sorted_keys by simp
  have "(0::nat) < length (group_rows coin ''BTC'' out)" using len by simp
  from local_min_max2_boundary_unflagged [OF ret this]
  have r0: "vals (group_rows coin ''BTC'' out ! 0) ''local_max'' = Some (Fin 0) \<and>
            vals (group_rows coin ''BTC'' out ! 0) ''local_min'' = Some (Fin 0)"
    by simp
  have "(2::nat) < length (group_rows coin ''BTC'' out)" using len by simp
  from local_min_max2_boundary_unflagged [OF ret this]
  have r2: "vals (group_rows coin ''BTC'' out ! 2) ''local_max'' = Some (Fin 0) \<and>
            vals (group_rows coin ''BTC'' out ! 2) ''local_min'' = Some (Fin 0)"
    using len by simp
  from ret len r0 r2 show ?thesis by blast
qed

section \<open>Weighted moving average\<close>

subsection \<open>Frame lemmas\<close>

lemma rows_set_col_map:
  "rows (set_col n (map h (rows df)) df) = map (\<lambda>r. r\<lparr>vals := (vals r)(n \<mapsto> h r)\<rparr>) (rows df)"
  by (simp add: set_col_def zip_map2 zip_same_conv_map)

lemma insort_key_map:
  assumes "\<And>x. f (g x) = f x"
  shows "insort_key f (g x) (map g ys) = map g (insort_key f x ys)"
  by (induction ys) (simp_all add: assms)

lemma sort_key_map:
  assumes "\<And>x. f (g x) = f x"
  shows "sort_key f (map g xs) = map g (sort_key f xs)"
proof (induction xs)
  case Nil
  show ?case by simp
next
  case (Cons x xs)
  have "insort_key f (g x) (map g (sort_key f xs)) = map g (insort_key f x (sort_key f xs))"
    by (rule insort_key_map) (rule assms)
  with Cons show ?case by simp
qed

lemma map_vals_set_col_other:
  assumes "length vs = length (rows df)" "c \<noteq> n"
  shows "map (\<lambda>r. vals r c) (rows (set_col n vs df)) = map (\<lambda>r. vals r c) (rows df)"
proof (rule nth_equalityI)
  show "length (map (\<lambda>r. vals r c) (rows (set_col n vs df))) = length (map (\<lambda>r. vals r c) (rows df))"
    using assms by (simp add: length_rows_set_col)
next
  fix i assume "i < length (map (\<lambda>r. vals r c) (rows (set_col n vs df)))"
  then have "i < length (rows df)" using assms by (simp add: length_rows_set_col)
  then show "map (\<lambda>r. vals r c) (rows (set_col n vs df)) ! i = map (\<lambda>r. vals r c) (rows df) ! i"
    using assms by (simp add: length_rows_set_col vals_rows_set_col)
qed

lemma map_vals_drop_cols:
  "map (\<lambda>r. vals r c) (rows (drop_cols names df)) =
   (if c \<in> set names then map (\<lambda>r. None) (rows df) else map (\<lambda>r. vals r c) (rows df))"
  by (simp add: drop_cols_def comp_def)

lemma map_key_drop_cols: "map key (rows (drop_cols names df)) = map key (rows df)"
  by (simp add: drop_cols_def comp_def)

lemma cols_set_col_list:
  "cols (set_col n vs df) = (if n \<in> set (cols df) then cols df else cols df @ [n])"
  by (simp add: set_col_def)

lemma cols_drop_cols: "cols (drop_cols names df) = filter (\<lambda>c. c \<notin> set names) (cols df)"
  by (simp add: drop_cols_def)

subsection \<open>The name of the new column\<close>

lemma str_nat_not_Nil: "str_nat n \<noteq> []"
  by (subst str_nat.simps) simp

lemma last_str_nat: "last (str_nat n) = ''0123456789'' ! (n mod 10)"
  by (subst str_nat.simps) simp

lemma last_new_name: "last (colname_new @ str_nat w) \<in> set ''0123456789''"
proof -
  have "last (colname_new @ str_nat w) = ''0123456789'' ! (w mod 10)"
    by (simp add: str_nat_not_Nil last_str_nat)
  moreover have "w mod 10 < length ''0123456789''" by simp
  ultimately show ?thesis using nth_mem by metis
qed

lemma new_name_fresh:
  "colname_new @ str_nat w \<notin> set scratch_cols" "colname_new @ str_nat w \<noteq> ''volume''"
proof -
  have a: "last ''weighted_price'' \<notin> set ''0123456789''" "last ''nominator'' \<notin> set ''0123456789''"
    "last ''denominator'' \<notin> set ''0123456789''" "last ''volume'' \<notin> set ''0123456789''"
    by simp_all
  show "colname_new @ str_nat w \<notin> set scratch_cols"
    using last_new_name [of colname_new w] a unfolding scratch_cols_def
    by (metis empty_iff empty_set set_ConsD)
  show "colname_new @ str_nat w \<noteq> ''volume''"
    using last_new_name [of colname_new w] a by metis
qed


lemma weighted_average_returns:
  "(\<exists>out. weighted_average df col_price colname_new w col_group col_sort = Inr out) =
   (col_price \<in> set (cols df) \<and> ''volume'' \<in> set (cols df) \<and> 1 \<le> w)"
  unfolding weighted_average_def Let_def by auto

lemma weighted_average_unfold:
  assumes ret: "weighted_average df col_price colname_new w col_group col_sort = Inr out"
  shows "\<exists>df2 df3 df4 df5 t3 t4 v5.
      out = drop_cols scratch_cols df5 \<and>
      df5 = set_col (colname_new @ str_nat w) v5 df4 \<and> length v5 = length (rows df4) \<and>
      df4 = set_col ''denominator'' t4 df3 \<and> length t4 = length (rows df3) \<and>
      df3 = set_col ''nominator'' t3 df2 \<and> length t3 = length (rows df2) \<and>
      cols df2 = cols (set_col ''weighted_price'' [] df) \<and>
      rows df2 =
        map (\<lambda>r. r\<lparr>vals := (vals r)(''weighted_price'' \<mapsto> fmul (cell col_price r) (cell ''volume'' r))\<rparr>)
          (sort_key (\<lambda>r. col_sort (key r)) (rows df))"
proof -
  define df1 where "df1 = set_col ''weighted_price''
      (map (\<lambda>r. fmul (cell col_price r) (cell ''volume'' r)) (rows df)) df"
  define df2 where "df2 = sort_values col_sort df1"
  define t3 where "t3 = transform_col (rolling agg_sum w 1 False) col_group ''weighted_price'' df2"
  define df3 where "df3 = set_col ''nominator'' t3 df2"
  define t4 where "t4 = transform_col (rolling agg_sum w 1 False) col_group ''volume'' df3"
  define df4 where "df4 = set_col ''denominator'' t4 df3"
  define v5 where "v5 = map (\<lambda>r. fdiv (cell ''nominator'' r) (cell ''denominator'' r)) (rows df4)"
  define df5 where "df5 = set_col (colname_new @ str_nat w) v5 df4"
  have out: "out = drop_cols scratch_cols df5"
    using ret
    unfolding weighted_average_def Let_def df5_def v5_def df4_def t4_def df3_def t3_def df2_def df1_def
    by (simp split: if_splits)
  have r1: "rows df1 =
      map (\<lambda>r. r\<lparr>vals := (vals r)(''weighted_price'' \<mapsto> fmul (cell col_price r) (cell ''volume'' r))\<rparr>)
        (rows df)"
    unfolding df1_def by (rule rows_set_col_map)
  have r2: "rows df2 =
      map (\<lambda>r. r\<lparr>vals := (vals r)(''weighted_price'' \<mapsto> fmul (cell col_price r) (cell ''volume'' r))\<rparr>)
        (sort_key (\<lambda>r. col_sort (key r)) (rows df))"
    unfolding df2_def sort_values_def r1
    by (simp add: sort_key_map)
  have c2: "cols df2 = cols (set_col ''weighted_price'' [] df)"
    unfolding df2_def df1_def by (simp add: sort_values_def set_col_def)
  have "length t3 = length (rows df2)" unfolding t3_def by (rule length_transform_col)
  moreover have "length t4 = length (rows df3)" unfolding t4_def by (rule length_transform_col)
  moreover have "length v5 = length (rows df4)" unfolding v5_def by simp
  ultimately show ?thesis using out df5_def df4_def df3_def c2 r2 by blast
qed

lemma weighted_average_other_cols:
  assumes ret: "weighted_average df col_price colname_new w col_group col_sort = Inr out"
    and c: "c \<notin> set scratch_cols" "c \<noteq> colname_new @ str_nat w"
  shows "map (\<lambda>r. vals r c) (rows out) =
         map (\<lambda>r. vals r c) (sort_key (\<lambda>r. col_sort (key r)) (rows df))"
proof -
  from weighted_average_unfold [OF ret] obtain df2 df3 df4 df5 t3 t4 v5 where
    out: "out = drop_cols scratch_cols df5"
    and d5: "df5 = set_col (colname_new @ str_nat w) v5 df4" "length v5 = length (rows df4)"
    and d4: "df4 = set_col ''denominator'' t4 df3" "length t4 = length (rows df3)"
    and d3: "df3 = set_col ''nominator'' t3 df2" "length t3 = length (rows df2)"
    and r2: "rows df2 =
        map (\<lambda>r. r\<lparr>vals := (vals r)(''weighted_price'' \<mapsto> fmul (cell col_price r) (cell ''volume'' r))\<rparr>)
          (sort_key (\<lambda>r. col_sort (key r)) (rows df))"
    by blast
  from c(1) have n: "c \<noteq> ''weighted_price''" "c \<noteq> ''nominator''" "c \<noteq> ''denominator''"
    by (auto simp: scratch_cols_def)
  have "map (\<lambda>r. vals r c) (rows out) = map (\<lambda>r. vals r c) (rows df5)"
    unfolding out using c(1) by (simp add: map_vals_drop_cols)
  also have "\<dots> = map (\<lambda>r. vals r c) (rows df4)"
    unfolding d5(1) by (rule map_vals_set_col_other [OF d5(2) c(2)])
  also have "\<dots> = map (\<lambda>r. vals r c) (rows df3)"
    unfolding d4(1) by (rule map_vals_set_col_other [OF d4(2) n(3)])
  also have "\<dots> = map (\<lambda>r. vals r c) (rows df2)"
    unfolding d3(1) by (rule map_vals_set_col_other [OF d3(2) n(2)])
  also have "\<dots> = map (\<lambda>r. vals r c) (sort_key (\<lambda>r. col_sort (key r)) (rows df))"
    unfolding r2 using n(1) by (simp add: comp_def)
  finally show ?thesis .
qed

lemma weighted_average_keys:
  assumes ret: "weighted_average df col_price colname_new w col_group col_sort = Inr out"
  shows "map key (rows out) = map key (sort_key (\<lambda>r. col_sort (key r)) (rows df))"
proof -
  from weighted_average_unfold [OF ret] obtain df2 df3 df4 df5 t3 t4 v5 where
    out: "out = drop_cols scratch_cols df5"
    and d5: "df5 = set_col (colname_new @ str_nat w) v5 df4" "length v5 = length (rows df4)"
    and d4: "df4 = set_col ''denominator'' t4 df3" "length t4 = length (rows df3)"
    and d3: "df3 = set_col ''nominator'' t3 df2" "length t3 = length (rows df2)"
    and r2: "rows df2 =
        map (\<lambda>r. r\<lparr>vals := (vals r)(''weighted_price'' \<mapsto> fmul (cell col_price r) (cell ''volume'' r))\<rparr>)
          (sort_key (\<lambda>r. col_sort (key r)) (rows df))"
    by blast
  have "map key (rows out) = map key (rows df5)"
    unfolding out by (rule map_key_drop_cols)
  also have "\<dots> = map key (rows df4)" unfolding d5(1) by (rule map_key_set_col [OF d5(2)])
  also have "\<dots> = map key (rows df3)" unfolding d4(1) by (rule map_key_set_col [OF d4(2)])
  also have "\<dots> = map key (rows df2)" unfolding d3(1) by (rule map_key_set_col [OF d3(2)])
  also have "\<dots> = map key (sort_key (\<lambda>r. col_sort (key r)) (rows df))"
    unfolding r2 by (simp add: comp_def)
  finally show ?thesis .
qed

lemma weighted_average_cols:
  assumes ret: "weighted_average df col_price colname_new w col_group col_sort = Inr out"
  shows "cols out = filter (\<lambda>c. c \<notin> set scratch_cols) (cols df) @
           (if colname_new @ str_nat w \<in> set (cols df) then [] else [colname_new @ str_nat w])"
proof -
  from weighted_average_unfold [OF ret] obtain df2 df3 df4 df5 t3 t4 v5 where
    out: "out = drop_cols scratch_cols df5"
    and d5: "df5 = set_col (colname_new @ str_nat w) v5 df4"
    and d4: "df4 = set_col ''denominator'' t4 df3"
    and d3: "df3 = set_col ''nominator'' t3 df2"
    and c2: "cols df2 = cols (set_col ''weighted_price'' [] df)"
    by blast
  have f: "colname_new @ str_nat w \<noteq> ''weighted_price''" "colname_new @ str_nat w \<noteq> ''nominator''"
    "colname_new @ str_nat w \<noteq> ''denominator''"
    using new_name_fresh(1) [of colname_new w] by (auto simp: scratch_cols_def)
  show ?thesis
    unfolding out d5 d4 d3 cols_drop_cols cols_set_col_list c2
    using f by (auto simp: scratch_cols_def)
qed

lemma weighted_average_scratch_gone:
  assumes ret: "weighted_average df col_price colname_new w col_group col_sort = Inr out"
  shows "list_all (\<lambda>r. list_all (\<lambda>c. vals r c = None) scratch_cols) (rows out)"
proof -
  from weighted_average_unfold [OF ret] obtain df5 where out: "out = drop_cols scratch_cols df5"
    by blast
  show ?thesis unfolding out by (simp add: drop_cols_def list_all_iff)
qed

text \<open>
  C8 (amended). For every input table whose price column is not named \<open>weighted_price\<close>,
  \<open>nominator\<close>, \<open>denominator\<close> or as the new column, \<open>weighted_average\<close> returns the rows of
  the input in \<open>col_sort\<close> order with the cells of the price column and of the volume column
  unchanged; the columns of the result are the columns of the input without the three
  scratch names, followed by the new column \<open>colname_new + str(window_length)\<close> when the
  input did not have it; no row keeps a cell under a scratch name.
\<close>

theorem weighted_average_frame:
  assumes ret: "weighted_average df col_price colname_new w col_group col_sort = Inr out"
    and p1: "col_price \<notin> set scratch_cols"
    and p2: "col_price \<noteq> colname_new @ str_nat w"
  shows "map key (rows out) = map key (sort_key (\<lambda>r. col_sort (key r)) (rows df)) \<and>
    map (\<lambda>r. vals r col_price) (rows out) =
      map (\<lambda>r. vals r col_price) (sort_key (\<lambda>r. col_sort (key r)) (rows df)) \<and>
    map (\<lambda>r. vals r ''volume'') (rows out) =
      map (\<lambda>r. vals r ''volume'') (sort_key (\<lambda>r. col_sort (key r)) (rows df)) \<and>
    cols out = filter (\<lambda>c. c \<notin> set scratch_cols) (cols df) @
      (if colname_new @ str_nat w \<in> set (cols df) then [] else [colname_new @ str_nat w]) \<and>
    list_all (\<lambda>r. list_all (\<lambda>c. vals r c = None) scratch_cols) (rows out)"
proof -
  have v: "''volume'' \<notin> set scratch_cols" by (simp add: scratch_cols_def)
  have w: "''volume'' \<noteq> colname_new @ str_nat w"
    using new_name_fresh(2) [of colname_new w] by simp
  show ?thesis
    using weighted_average_keys [OF ret] weighted_average_other_cols [OF ret p1 p2]
      weighted_average_other_cols [OF ret v w] weighted_average_cols [OF ret]
      weighted_average_scratch_gone [OF ret]
    by simp
qed

lemma ex_trades_sorted:
  "sort_key (\<lambda>r. timestamp (key r)) (rows ex_trades) =
   [mk_row ''BTC'' 0 [(''price'', Fin 10), (''volume'', Fin 1)],
    mk_row ''BTC'' 1 [(''price'', Fin 12), (''volume'', Fin 3)]]"
  by (simp add: ex_trades_def mk_row_def)

theorem weighted_average_frame_witness:
  "''price'' \<notin> set scratch_cols \<and> ''price'' \<noteq> ''avg_price_'' @ str_nat 5 \<and>
   (\<exists>out. weighted_average ex_trades ''price'' ''avg_price_'' 5 coin timestamp = Inr out \<and>
      cols out = [''price'', ''volume'', ''avg_price_5''] \<and>
      map (\<lambda>r. timestamp (key r)) (rows out) = [0, 1] \<and>
      map (\<lambda>r. vals r ''price'') (rows out) = [Some (Fin 10), Some (Fin 12)] \<and>
      map (\<lambda>r. vals r ''volume'') (rows out) = [Some (Fin 1), Some (Fin 3)])"
proof -
  have p1: "''price'' \<notin> set scratch_cols" by (simp add: scratch_cols_def)
  have s: "str_nat 5 = ''5''" by (simp add: str_nat.simps)
  have p2: "''price'' \<noteq> ''avg_price_'' @ str_nat 5" by (simp add: s)
  have "\<exists>out. weighted_average ex_trades ''price'' ''avg_price_'' 5 coin timestamp = Inr out"
    unfolding weighted_average_returns by (simp add: ex_trades_def)
  then obtain out where
    ret: "weighted_average ex_trades ''price'' ''avg_price_'' 5 coin timestamp = Inr out" ..
  have k: "map (\<lambda>r. timestamp (key r)) (rows out) = map (timestamp \<circ> key) (rows out)"
    by (simp add: comp_def)
  from weighted_average_frame [OF ret p1 p2]
  have "cols out = [''price'', ''volume'', ''avg_price_5''] \<and>
      map key (rows out) = map key (sort_key (\<lambda>r. timestamp (key r)) (rows ex_trades)) \<and>
      map (\<lambda>r. vals r ''price'') (rows out) = [Some (Fin 10), Some (Fin 12)] \<and>
      map (\<lambda>r. vals r ''volume'') (rows out) = [Some (Fin 1), Some (Fin 3)]"
    unfolding ex_trades_sorted by (simp add: s ex_trades_def scratch_cols_def mk_row_def)
  moreover from this have "map (timestamp \<circ> key) (rows out) = [0, 1]"
    unfolding map_map [symmetric] ex_trades_sorted by (simp add: mk_row_def)
  ultimately show ?thesis using p1 p2 ret k by auto
qed

text \<open>
  The claim as stated fails when the caller's price column is called \<open>weighted_price\<close>:
  line 15 overwrites it with price times volume and line 24 drops it, so the returned
  table has no price column any more.
\<close>

theorem weighted_average_clash_counterexample:
  "map (\<lambda>r. vals r ''weighted_price'') (rows ex_clash) = [Some (Fin 7)] \<and>
   (case weighted_average ex_clash ''weighted_price'' ''avg_'' 5 coin timestamp of
      Inl e \<Rightarrow> None
    | Inr out \<Rightarrow> Some (cols out, map (\<lambda>r. vals r ''weighted_price'') (rows out))) =
   Some ([''volume'', ''avg_5''], [None])"
proof -
  have "\<exists>out. weighted_average ex_clash ''weighted_price'' ''avg_'' 5 coin timestamp = Inr out"
    unfolding weighted_average_returns by (simp add: ex_clash_def)
  then obtain out where
    ret: "weighted_average ex_clash ''weighted_price'' ''avg_'' 5 coin timestamp = Inr out" ..
  have s: "str_nat 5 = ''5''" by (simp add: str_nat.simps)
  have c: "cols out = [''volume'', ''avg_5'']"
    unfolding weighted_average_cols [OF ret] by (simp add: s ex_clash_def scratch_cols_def)
  have "length (map key (rows out)) = 1"
    unfolding weighted_average_keys [OF ret] by (simp add: ex_clash_def)
  then obtain r where r: "rows out = [r]"
    by (cases "rows out") simp_all
  have "vals r ''weighted_price'' = None"
    using weighted_average_scratch_gone [OF ret] by (simp add: r scratch_cols_def)
  then have v: "map (\<lambda>r. vals r ''weighted_price'') (rows out) = [None]" by (simp add: r)
  have "map (\<lambda>r. vals r ''weighted_price'') (rows ex_clash) = [Some (Fin 7)]"
    by (simp add: ex_clash_def mk_row_def)
  then show ?thesis by (simp add: ret c v)
qed

section \<open>Single-column extrema\<close>

text \<open>
  C1 at a concrete table. With window 3 the middle row of \<open>ex_prices\<close> has a full centered
  window; its price 1 equals the centered rolling minimum of the price column, yet
  \<open>define_local_min_max\<close> returns \<open>local_min = 0\<close> for it: line 34 takes the rolling minimum of
  the column \<open>avg_price_5\<close> (here 2), whatever \<open>col_price\<close> is.
\<close>

theorem local_min_reads_avg_price_5:
  "cell ''price'' (rows ex_prices ! 1) = Fin 1 \<and>
   rolling agg_min 3 3 True (col ''price'' ex_prices) ! 1 = Fin 1 \<and>
   rolling agg_min 3 3 True (col ''avg_price_5'' ex_prices) ! 1 = Fin 2 \<and>
   (case define_local_min_max ex_prices ''price'' coin 3 [] timestamp of
      Inl e \<Rightarrow> []
    | Inr out \<Rightarrow> map (\<lambda>r. (cell ''price'' r, cell ''local_max'' r, cell ''local_min'' r)) (rows out)) =
   [(Fin 2, Fin 0, Fin 0), (Fin 1, Fin 0, Fin 0), (Fin 3, Fin 0, Fin 0)]"
proof -
  have a: "cell ''price'' (rows ex_prices ! 1) = Fin 1"
    by (simp add: ex_prices_def mk_row_def cell_def)
  have b: "rolling agg_min 3 3 True (col ''price'' ex_prices) ! 1 = Fin 1"
    by (simp add: ex_prices_def mk_row_def col_def cell_def rolling_def window_obs_def
        window_bounds_def Let_def)
  have c: "rolling agg_min 3 3 True (col ''avg_price_5'' ex_prices) ! 1 = Fin 2"
    by (simp add: ex_prices_def mk_row_def col_def cell_def rolling_def window_obs_def
        window_bounds_def Let_def)
  have d: "(case define_local_min_max ex_prices ''price'' coin 3 [] timestamp of
      Inl e \<Rightarrow> []
    | Inr out \<Rightarrow> map (\<lambda>r. (cell ''price'' r, cell ''local_max'' r, cell ''local_min'' r)) (rows out)) =
   [(Fin 2, Fin 0, Fin 0), (Fin 1, Fin 0, Fin 0), (Fin 3, Fin 0, Fin 0)]"
    by (simp add: define_local_min_max_def ex_prices_def mk_row_def sort_values_def set_col_def
        transform_col_def group_transform_def groups_def col_def cell_def rolling_def window_obs_def
        window_bounds_def flag_equal_def Let_def)
  from a b c d show ?thesis by (intro conjI)
qed

section \<open>Momentum\<close>











section \<open>Support and resistance levels\<close>

lemma cluster_ids_gap: "cluster_ids 0.025 [Fin 100, Fin 101, Fin 150] = [1, 1, 3]"
  by (simp add: cluster_ids_def fsub_def upt_rec [of 0] upt_rec [of "Suc _"] upt_rec [of 1] upt_rec [of 2] upt_rec [of 3])

lemma cluster_ids_chain: "cluster_ids 0.025 [Fin 100, Fin 102, Fin 104] = [1, 1, 1]"
  by (simp add: cluster_ids_def fsub_def upt_rec [of 0] upt_rec [of "Suc _"] upt_rec [of 1] upt_rec [of 2] upt_rec [of 3])

lemma ex_rows3:
  "rows (ex_extrema_rows [a, b, c]) =
     [\<lparr>key = \<lparr>coin = ''BTC'', timestamp = 0, day = 0\<rparr>,
       vals = [''price'' \<mapsto> Fin a, ''local_min'' \<mapsto> Fin 1, ''local_max'' \<mapsto> Fin 0]\<rparr>,
      \<lparr>key = \<lparr>coin = ''BTC'', timestamp = 24, day = 1\<rparr>,
       vals = [''price'' \<mapsto> Fin b, ''local_min'' \<mapsto> Fin 1, ''local_max'' \<mapsto> Fin 0]\<rparr>,
      \<lparr>key = \<lparr>coin = ''BTC'', timestamp = 48, day = 2\<rparr>,
       vals = [''price'' \<mapsto> Fin c, ''local_min'' \<mapsto> Fin 1, ''local_max'' \<mapsto> Fin 0]\<rparr>]"
  by (simp add: ex_extrema_rows_def upt_rec [of 0] upt_rec [of "Suc _"])

lemma ex_locals3:
  "filter (\<lambda>r. feq (cell ''local_min'' r) (Fin 1) \<or> feq (cell ''local_max'' r) (Fin 1))
     (rows (ex_extrema_rows [a, b, c])) = rows (ex_extrema_rows [a, b, c])"
  unfolding ex_rows3 by (simp add: cell_def)

lemma ex_groups3:
  "unique (map (\<lambda>r. coin (key r)) (rows (ex_extrema_rows [a, b, c]))) = [''BTC'']"
  "filter (\<lambda>r. coin (key r) = ''BTC'') (rows (ex_extrema_rows [a, b, c])) = rows (ex_extrema_rows [a, b, c])"
  unfolding ex_rows3 by (simp_all add: unique_def)

lemma ex_gap_levels:
  "map (\<lambda>c. (lv_day c, lv_level c))
     (cluster_group 0.025 ''price'' coin (rows (ex_extrema_rows [150, 100, 101]))) =
   [(1, 1), (2, 1), (0, 3)]"
  unfolding ex_rows3 cluster_group_def Let_def
  by (simp add: cell_def na_last_def)
     (simp add: cluster_ids_gap [simplified])

lemma ex_chain_levels:
  "map (\<lambda>c. (lv_day c, lv_level c))
     (cluster_group 0.025 ''price'' coin (rows (ex_extrema_rows [104, 100, 102]))) =
   [(1, 1), (2, 1), (0, 1)]"
  unfolding ex_rows3 cluster_group_def Let_def
  by (simp add: cell_def na_last_def)
     (simp add: cluster_ids_chain [simplified])


lemma ex_gap_cluster:
  "cluster_group 0.025 ''price'' coin (rows (ex_extrema_rows [150, 100, 101])) =
   [\<lparr>lv_day = 1, lv_group = ''BTC'', lv_level = 1, lv_price = Fin (201 / 2), lv_counter = Fin 2\<rparr>,
    \<lparr>lv_day = 2, lv_group = ''BTC'', lv_level = 1, lv_price = Fin (201 / 2), lv_counter = Fin 2\<rparr>,
    \<lparr>lv_day = 0, lv_group = ''BTC'', lv_level = 3, lv_price = Fin 150, lv_counter = Fin 1\<rparr>]"
  unfolding ex_rows3 cluster_group_def Let_def
  by (simp add: cell_def na_last_def)
     (simp add: cluster_ids_gap [simplified] fl_median_def fl_count_def na_last_def)

lemma ex_chain_cluster:
  "cluster_group 0.025 ''price'' coin (rows (ex_extrema_rows [104, 100, 102])) =
   [\<lparr>lv_day = 1, lv_group = ''BTC'', lv_level = 1, lv_price = Fin 102, lv_counter = Fin 3\<rparr>,
    \<lparr>lv_day = 2, lv_group = ''BTC'', lv_level = 1, lv_price = Fin 102, lv_counter = Fin 3\<rparr>,
    \<lparr>lv_day = 0, lv_group = ''BTC'', lv_level = 1, lv_price = Fin 102, lv_counter = Fin 3\<rparr>]"
  unfolding ex_rows3 cluster_group_def Let_def
  by (simp add: cell_def na_last_def)
     (simp add: cluster_ids_chain [simplified] fl_median_def fl_count_def na_last_def)

lemma ex_cols3: "cols (ex_extrema_rows ps) = [''price'', ''local_min'', ''local_max'']"
  by (simp add: ex_extrema_rows_def)

lemma ex_gap_table:
  "(case aggregate_support_levels (ex_extrema_rows [150, 100, 101]) ''local_min'' ''local_max''
           ''price'' coin 0.025 [] of
      Inl e \<Rightarrow> []
    | Inr out \<Rightarrow> map (\<lambda>r. (cell ''price'' r, cell ''level'' r)) (rows out)) =
   [(Fin 150, Fin 3), (Fin 100, Fin 1), (Fin 101, Fin 1)]"
  unfolding aggregate_support_levels_def Let_def ex_locals3 ex_groups3 ex_cols3
  by (simp add: ex_groups3 ex_gap_cluster [simplified] merge_levels_def)
     (simp add: ex_rows3 cell_def Let_def)

lemma ex_chain_table:
  "(case aggregate_support_levels (ex_extrema_rows [104, 100, 102]) ''local_min'' ''local_max''
           ''price'' coin 0.025 [] of
      Inl e \<Rightarrow> []
    | Inr out \<Rightarrow> map (\<lambda>r. (cell ''price'' r, cell ''level'' r)) (rows out)) =
   [(Fin 104, Fin 1), (Fin 100, Fin 1), (Fin 102, Fin 1)]"
  unfolding aggregate_support_levels_def Let_def ex_locals3 ex_groups3 ex_cols3
  by (simp add: ex_groups3 ex_chain_cluster [simplified] merge_levels_def)
     (simp add: ex_rows3 cell_def Let_def)

text \<open>
  C4. Three flagged extrema of one coin at prices 150, 100 and 101 (in table order) under
  threshold 0.025: the rows at 100 and 101 receive the same level, the row at 150 another
  one. At prices 104, 100 and 102 all three rows receive the same level, by chaining:
  100 to 102 and 102 to 104 are each within the threshold, 100 to 104 is not.
\<close>

theorem support_levels_cluster_examples:
  "cluster_ids 0.025 [Fin 100, Fin 101, Fin 150] = [1, 1, 3] \<and>
   (case aggregate_support_levels (ex_extrema_rows [150, 100, 101]) ''local_min'' ''local_max''
           ''price'' coin 0.025 [] of
      Inl e \<Rightarrow> []
    | Inr out \<Rightarrow> map (\<lambda>r. (cell ''price'' r, cell ''level'' r)) (rows out)) =
   [(Fin 150, Fin 3), (Fin 100, Fin 1), (Fin 101, Fin 1)] \<and>
   cluster_ids 0.025 [Fin 100, Fin 102, Fin 104] = [1, 1, 1] \<and>
   \<not> fle (fdiv (fabs (fsub (Fin 100) (Fin 104))) (Fin 100)) (Fin 0.025) \<and>
   (case aggregate_support_levels (ex_extrema_rows [104, 100, 102]) ''local_min'' ''local_max''
           ''price'' coin 0.025 [] of
      Inl e \<Rightarrow> []
    | Inr out \<Rightarrow> map (\<lambda>r. (cell ''price'' r, cell ''level'' r)) (rows out)) =
   [(Fin 104, Fin 1), (Fin 100, Fin 1), (Fin 102, Fin 1)]"
proof -
  have "\<not> fle (fdiv (fabs (fsub (Fin 100) (Fin 104))) (Fin 100)) (Fin 0.025)"
    by (simp add: fsub_def)
  with cluster_ids_gap ex_gap_table cluster_ids_chain ex_chain_table show ?thesis
    by (intro conjI)
qed

lemma no_extrema_raises:
  assumes "filter (\<lambda>r. feq (cell col_min r) (Fin 1) \<or> feq (cell col_max r) (Fin 1)) (rows df) = []"
  shows "aggregate_support_levels df col_min col_max col_price col_group thres suffix = Inl KeyError"
  using assms unfolding aggregate_support_levels_def Let_def by simp

lemma ex_hours_rows:
  "rows (ex_hours flag) =
     [\<lparr>key = \<lparr>coin = ''BTC'', timestamp = 0, day = 0\<rparr>,
       vals = [''price'' \<mapsto> Fin 100, ''local_min'' \<mapsto> flag, ''local_max'' \<mapsto> Fin 0]\<rparr>,
      \<lparr>key = \<lparr>coin = ''BTC'', timestamp = 1, day = 0\<rparr>,
       vals = [''price'' \<mapsto> Fin 150, ''local_min'' \<mapsto> Fin 0, ''local_max'' \<mapsto> flag]\<rparr>,
      \<lparr>key = \<lparr>coin = ''BTC'', timestamp = 24, day = 1\<rparr>,
       vals = [''price'' \<mapsto> Fin 120, ''local_min'' \<mapsto> Fin 0, ''local_max'' \<mapsto> Fin 0]\<rparr>]"
  by (simp add: ex_hours_def)

lemma ex_hours_locals:
  "filter (\<lambda>r. feq (cell ''local_min'' r) (Fin 1) \<or> feq (cell ''local_max'' r) (Fin 1))
     (rows (ex_hours (Fin 1))) = take 2 (rows (ex_hours (Fin 1)))"
  "filter (\<lambda>r. feq (cell ''local_min'' r) (Fin 1) \<or> feq (cell ''local_max'' r) (Fin 1))
     (rows (ex_hours (Fin 0))) = []"
  unfolding ex_hours_rows by (simp_all add: cell_def)

lemma ex_hours_cluster:
  "cluster_group 0.025 ''price'' coin (take 2 (rows (ex_hours (Fin 1)))) =
   [\<lparr>lv_day = 0, lv_group = ''BTC'', lv_level = 1, lv_price = Fin 100, lv_counter = Fin 1\<rparr>,
    \<lparr>lv_day = 0, lv_group = ''BTC'', lv_level = 2, lv_price = Fin 150, lv_counter = Fin 1\<rparr>]"
  unfolding ex_hours_rows cluster_group_def Let_def
  by (simp add: cell_def na_last_def)
     (simp add: cluster_ids_def fsub_def fl_median_def fl_count_def na_last_def
        upt_rec [of 0] upt_rec [of "Suc _"] upt_rec [of 1] upt_rec [of 2])

lemma ex_hours_groups:
  "unique (map (\<lambda>r. coin (key r)) (take 2 (rows (ex_hours (Fin 1))))) = [''BTC'']"
  "filter (\<lambda>r. coin (key r) = ''BTC'') (take 2 (rows (ex_hours (Fin 1)))) = take 2 (rows (ex_hours (Fin 1)))"
  unfolding ex_hours_rows by (simp_all add: unique_def)

lemma ex_hours_cols: "cols (ex_hours flag) = [''price'', ''local_min'', ''local_max'']"
  by (simp add: ex_hours_def)

lemma ex_hours_nonempty: "take 2 (rows (ex_hours (Fin 1))) \<noteq> []"
  unfolding ex_hours_rows by simp

text \<open>
  The left join on a table with two flagged extrema on day 0 and none on day 1: each of
  the two rows of day 0 matches both clusters of that day and appears twice; the row of
  day 1 appears once, with null level columns.
\<close>

lemma ex_hours_left_join:
  "(case aggregate_support_levels (ex_hours (Fin 1)) ''local_min'' ''local_max'' ''price'' coin 0.025 [] of
      Inl e \<Rightarrow> []
    | Inr out \<Rightarrow>
        map (\<lambda>r. (timestamp (key r), vals r ''level'', vals r ''price_level'', vals r ''counter_level''))
          (rows out)) =
   [(0, Some (Fin 1), Some (Fin 100), Some (Fin 1)), (0, Some (Fin 2), Some (Fin 150), Some (Fin 1)),
    (1, Some (Fin 1), Some (Fin 100), Some (Fin 1)), (1, Some (Fin 2), Some (Fin 150), Some (Fin 1)),
    (24, Some NaN, Some NaN, Some NaN)]"
  unfolding aggregate_support_levels_def Let_def ex_hours_locals ex_hours_cols
  by (simp add: ex_hours_nonempty ex_hours_groups ex_hours_cluster [simplified] merge_levels_def)
     (simp add: ex_hours_rows Let_def)

text \<open>
  C9 at a table without any flagged extremum: the call raises instead of returning the
  rows with null level columns.
\<close>

theorem no_extrema_key_error:
  "length (rows (ex_hours (Fin 0))) = 3 \<and>
   aggregate_support_levels (ex_hours (Fin 0)) ''local_min'' ''local_max'' ''price'' coin 0.025 [] =
   Inl KeyError"
  using no_extrema_raises [OF ex_hours_locals(2)] by (simp add: ex_hours_rows)

section \<open>News grid\<close>

subsection \<open>The grid of the news table\<close>

lemma set_unique: "set (unique xs) = set xs"
  by (simp add: unique_def)

lemma length_unique: "length (unique xs) = card (set xs)"
  by (simp add: unique_def length_remdups_card_conv)

lemma fold_min_Min: "fold min xs (x::int) = Min (set (x # xs))"
  by (simp only: Min.set_eq_fold)

lemma fold_max_Max: "fold max xs (x::int) = Max (set (x # xs))"
  by (simp only: Max.set_eq_fold)

lemma length_grid_product:
  "length (concat (map (\<lambda>c. concat (map (\<lambda>d. map (f c d) hs) ds)) cs)) =
   length cs * length ds * length hs"
  by (simp add: length_concat comp_def sum_list_triv)

lemma aggregate_news_keys:
  "map (\<lambda>r. (n_coin r, n_day r, n_hour r)) (aggregate_news polarity df) =
   sort (remdups (map news_key df))"
  by (simp add: aggregate_news_def comp_def Let_def)

lemma aggregate_news_coins: "n_coin ` set (aggregate_news polarity df) = a_coin ` set df"
proof -
  have "n_coin ` set (aggregate_news polarity df) =
        fst ` set (map (\<lambda>r. (n_coin r, n_day r, n_hour r)) (aggregate_news polarity df))"
    by (simp add: image_image)
  also have "\<dots> = fst ` news_key ` set df" by (simp only: aggregate_news_keys) simp
  also have "\<dots> = a_coin ` set df" by (simp add: image_image news_key_def)
  finally show ?thesis .
qed

lemma aggregate_news_days: "n_day ` set (aggregate_news polarity df) = a_day ` set df"
proof -
  have "n_day ` set (aggregate_news polarity df) =
        (fst \<circ> snd) ` set (map (\<lambda>r. (n_coin r, n_day r, n_hour r)) (aggregate_news polarity df))"
    by (simp add: image_image)
  also have "\<dots> = (fst \<circ> snd) ` news_key ` set df" by (simp only: aggregate_news_keys) simp
  also have "\<dots> = a_day ` set df" by (simp add: image_image news_key_def)
  finally show ?thesis .
qed

lemma aggregate_news_empty: "(aggregate_news polarity df = []) = (df = [])"
proof -
  have "(aggregate_news polarity df = []) = (sort (remdups (map news_key df)) = [])"
    by (simp add: aggregate_news_def)
  also have "\<dots> = (set (sort (remdups (map news_key df))) = {})" by (simp only: set_empty)
  also have "\<dots> = (df = [])" by simp
  finally show ?thesis .
qed

lemma length_grid_keys:
  assumes "df \<noteq> []"
  shows "length (grid_keys df) =
    card (n_coin ` set df) * nat (Max (n_day ` set df) - Min (n_day ` set df) + 1) * 24"
proof -
  have s: "set (n_day (hd df) # map n_day df) = n_day ` set df"
    using assms by (cases df) auto
  show ?thesis
    unfolding grid_keys_def Let_def length_grid_product fold_min_Min fold_max_Max s
    by (simp add: length_unique)
qed

lemma filter_distinct_key:
  assumes "distinct (map f xs)"
  shows "length (filter (\<lambda>x. f x = k) xs) \<le> 1"
  using assms
proof (induction xs)
  case Nil
  show ?case by simp
next
  case (Cons a xs)
  show ?case
  proof (cases "f a = k")
    case True
    with Cons.prems have "k \<notin> f ` set xs" by simp
    then have "filter (\<lambda>x. f x = k) xs = []" by (auto simp: filter_empty_conv)
    with True show ?thesis by simp
  next
    case False
    with Cons show ?thesis by simp
  qed
qed

lemma aggregate_news_match:
  "length (filter (\<lambda>r. n_coin r = c \<and> n_day r = d \<and> n_hour r = h) (aggregate_news polarity df)) \<le> 1"
proof -
  have "distinct (map (\<lambda>r. (n_coin r, n_day r, n_hour r)) (aggregate_news polarity df))"
    by (simp only: aggregate_news_keys) simp
  from filter_distinct_key [OF this, of "(c, d, h)"] show ?thesis by simp
qed

lemma length_enlarge:
  assumes "enlarge_dataframe (aggregate_news polarity df) = Inr out"
  shows "length out = length (grid_keys (aggregate_news polarity df))"
proof -
  let ?agg = "aggregate_news polarity df"
  let ?expand = "\<lambda>(c, d, h).
        let ms = filter (\<lambda>r. n_coin r = c \<and> n_day r = d \<and> n_hour r = h) ?agg in
        if ms = []
        then [\<lparr>n_coin = c, n_day = d, n_hour = h,
                n_vals = [''news_count'' \<mapsto> NaN, ''news_sentiment'' \<mapsto> NaN]\<rparr>]
        else map (\<lambda>r. \<lparr>n_coin = c, n_day = d, n_hour = h, n_vals = n_vals r\<rparr>) ms"
  have out: "out = concat (map ?expand (grid_keys ?agg))"
    using assms by (simp add: enlarge_dataframe_def split: if_splits)
  have one: "length (?expand k) = 1" for k
  proof -
    obtain c d h where k: "k = (c, d, h)" by (cases k) auto
    from aggregate_news_match [of c d h polarity df] show ?thesis
      unfolding k by (auto simp: Let_def le_Suc_eq)
  qed
  have "length out = sum_list (map (\<lambda>k. length (?expand k)) (grid_keys ?agg))"
    unfolding out by (simp add: length_concat comp_def)
  also have "\<dots> = sum_list (map (\<lambda>k. 1) (grid_keys ?agg))"
    by (simp only: one)
  also have "\<dots> = length (grid_keys ?agg)" by (simp add: sum_list_triv)
  finally show ?thesis .
qed

text \<open>
  The first half of C2 holds in general: the table before the rolling sums has one row per
  coin, day of the range and hour.
\<close>

lemma news_grid_size:
  assumes "news_grid polarity all_news = Inr out"
    and "parsed = filter (\<lambda>a. a_hour a > - 1) all_news"
  shows "length out =
    card (a_coin ` set parsed) * nat (Max (a_day ` set parsed) - Min (a_day ` set parsed) + 1) * 24"
proof -
  let ?df = "unique parsed"
  from assms have e: "enlarge_dataframe (aggregate_news polarity ?df) = Inr out"
    by (simp add: news_grid_def Let_def split: if_splits)
  then have "aggregate_news polarity ?df \<noteq> []"
    by (auto simp: enlarge_dataframe_def)
  from length_grid_keys [OF this] length_enlarge [OF e] show ?thesis
    by (simp add: aggregate_news_coins aggregate_news_days set_unique)
qed

text \<open>
  The second half fails in general: every cell of that table without an article holds
  null, not 0, in both columns.
\<close>

lemma news_grid_null_cells:
  assumes "news_grid polarity all_news = Inr out"
    and "r \<in> set out"
    and "(n_coin r, n_day r, n_hour r) \<notin> news_key ` set all_news"
  shows "n_vals r ''news_count'' = Some NaN \<and> n_vals r ''news_sentiment'' = Some NaN"
proof -
  let ?df = "unique (filter (\<lambda>a. a_hour a > - 1) all_news)"
  let ?agg = "aggregate_news polarity ?df"
  from assms(1) have "enlarge_dataframe ?agg = Inr out"
    by (simp add: news_grid_def Let_def split: if_splits)
  with assms(2) obtain c d h where
    r: "r \<in> set (let ms = filter (\<lambda>r. n_coin r = c \<and> n_day r = d \<and> n_hour r = h) ?agg in
        if ms = []
        then [\<lparr>n_coin = c, n_day = d, n_hour = h,
                n_vals = [''news_count'' \<mapsto> NaN, ''news_sentiment'' \<mapsto> NaN]\<rparr>]
        else map (\<lambda>r. \<lparr>n_coin = c, n_day = d, n_hour = h, n_vals = n_vals r\<rparr>) ms)"
    by (auto simp: enlarge_dataframe_def split: if_splits)
  have k: "n_coin r = c \<and> n_day r = d \<and> n_hour r = h"
    using r by (auto simp: Let_def split: if_splits)
  have "filter (\<lambda>r. n_coin r = c \<and> n_day r = d \<and> n_hour r = h) ?agg = []"
  proof (rule ccontr)
    assume "filter (\<lambda>r. n_coin r = c \<and> n_day r = d \<and> n_hour r = h) ?agg \<noteq> []"
    then obtain m where "m \<in> set ?agg" "n_coin m = c \<and> n_day m = d \<and> n_hour m = h"
      by (auto simp: filter_empty_conv)
    then have "(c, d, h) \<in> set (map (\<lambda>r. (n_coin r, n_day r, n_hour r)) ?agg)" by force
    then have "(c, d, h) \<in> news_key ` set ?df"
      by (simp only: aggregate_news_keys) simp
    then have "(c, d, h) \<in> news_key ` set all_news" by (auto simp: set_unique)
    with assms(3) k show False by simp
  qed
  with r show ?thesis by (simp add: Let_def)
qed

subsection \<open>One article\<close>

lemma hours24: "[0..23::int] = [0,1,2,3,4,5,6,7,8,9,10,11,12,13,14,15,16,17,18,19,20,21,22,23]"
  by (simp add: upto_rec1)

lemma ex_news_agg:
  "aggregate_news polarity (unique (filter (\<lambda>a. a_hour a > - 1) ex_news)) =
   [\<lparr>n_coin = ''Bitcoin'', n_day = 0, n_hour = 5,
     n_vals = [''news_count'' \<mapsto> Fin 1, ''news_sentiment'' \<mapsto> Fin (polarity ''a'')]\<rparr>]"
  by (simp add: ex_news_def unique_def aggregate_news_def news_key_def fillna0_def)

lemma ex_news_grid_keys:
  "grid_keys [\<lparr>n_coin = ''Bitcoin'', n_day = 0, n_hour = 5, n_vals = v\<rparr>] =
   map (\<lambda>h. (''Bitcoin'', 0, h)) [0..23]"
  by (simp add: grid_keys_def unique_def Let_def del: upto.simps)

text \<open>
  C2 at a concrete input: one parseable article at hour 5 of one day. The table before the
  rolling sums has the 24 rows of that day, and in the 23 cells without an article
  \<open>news_count\<close> and \<open>news_sentiment\<close> are null: the \<open>fillna(0)\<close> of lines 149 and 150 runs
  before the left join of \<open>enlarge_dataframe\<close> creates the nulls, not after it.
\<close>

theorem news_grid_unfilled_cells:
  "(case news_grid polarity ex_news of
      Inl e \<Rightarrow> []
    | Inr out \<Rightarrow> map (\<lambda>r. (n_hour r, n_vals r ''news_count'', n_vals r ''news_sentiment'')) out) =
   map (\<lambda>h. (h, Some (if h = 5 then Fin 1 else NaN), Some (if h = 5 then Fin (polarity ''a'') else NaN)))
     [0..23]"
  unfolding news_grid_def Let_def ex_news_agg enlarge_dataframe_def ex_news_grid_keys hours24
  by (simp add: ex_news_def)


end
